theory Spec2Isabelle
  imports Complex_Main "HOL-Library.Multiset"
begin

section \<open>JavaScript values used by the server\<close>

text \<open>
  The file \<^verbatim>\<open>src/server/server.js\<close> holds two servers, one after the other. The first
  one is modelled route by route (the files under \<^verbatim>\<open>src/unnamed\<close> are revisions of it);
  of the second one, the routes that write to the collection, the listing and the webhook.
  Strings are JavaScript strings restricted to code units below 256, one \<^typ>\<open>char\<close> per
  code unit, so that \<^const>\<open>length\<close> is \<^verbatim>\<open>String.prototype.length\<close>. A value that may
  be \<^verbatim>\<open>undefined\<close> is an \<^typ>\<open>'a option\<close>. Numbers are the integers the code computes
  with (fees, sizes, timestamps), all far below \<open>2^53\<close>; \<^verbatim>\<open>NaN\<close> is \<^const>\<open>None\<close>.
\<close>

text \<open>\<^verbatim>\<open>!v\<close> for a string that may be undefined: undefined and the empty string are falsy.\<close>

definition falsy :: "string option \<Rightarrow> bool" where
  "falsy v = (case v of None \<Rightarrow> True | Some s \<Rightarrow> s = [])"

definition truthy :: "string option \<Rightarrow> bool" where
  "truthy v = (case v of None \<Rightarrow> False | Some s \<Rightarrow> s \<noteq> [])"

text \<open>
  The class \<^verbatim>\<open>\s\<close> of a JavaScript regular expression, on code units below 256:
  tab, line feed, vertical tab, form feed, carriage return, space, no-break space.
\<close>

definition is_space :: "char \<Rightarrow> bool" where
  "is_space c = (c = CHR 0x09 \<or> c = CHR 0x0A \<or> c = CHR 0x0B \<or> c = CHR 0x0C \<or>
     c = CHR 0x0D \<or> c = CHR 0x20 \<or> c = CHR 0xA0)"

text \<open>
  \<^verbatim>\<open>v.split(/\s+/)\<close>: the pieces of \<open>v\<close> between maximal runs of white space. The
  first argument says that the scan is inside a separator, the second is the piece being
  read, reversed. A separator at the start or at the end gives an empty piece, and the
  empty string gives one empty piece, as in JavaScript.
\<close>

fun split_ws_from :: "bool \<Rightarrow> string \<Rightarrow> string \<Rightarrow> string list" where
  "split_ws_from insep acc [] = [rev acc]"
| "split_ws_from insep acc (c # cs) =
     (if is_space c then
        (if insep then split_ws_from True [] cs else rev acc # split_ws_from True [] cs)
      else split_ws_from False (c # acc) cs)"

definition split_ws :: "string \<Rightarrow> string list" where
  "split_ws v = split_ws_from False [] v"

text \<open>
  \<^verbatim>\<open>const wordCount = v ? v.split(/\s+/).filter(word => word.length > 0).length : 0;\<close>
\<close>

definition wordCount :: "string option \<Rightarrow> nat" where
  "wordCount v =
     (if truthy v then length (filter (\<lambda>word. length word > 0) (split_ws (the v))) else 0)"

text \<open>
  The validator of \<^verbatim>\<open>entrySchema.textContent\<close>; \<^verbatim>\<open>this.entryType\<close> is its first
  argument.
\<close>

definition textContent_validator :: "string \<Rightarrow> string option \<Rightarrow> bool" where
  "textContent_validator this_entryType v =
     (if this_entryType = ''text'' then
        (let n = wordCount v in n \<ge> 100 \<and> n \<le> 2000)
      else True)"

text \<open>
  The specification's word count, written from its words: the number of white-space
  delimited tokens, empty tokens not counted. A token starts at every character that is not
  white space and whose predecessor, if any, is white space. The flag says that the
  previous character belongs to a token.
\<close>

fun token_count_from :: "bool \<Rightarrow> string \<Rightarrow> nat" where
  "token_count_from intok [] = 0"
| "token_count_from intok (c # cs) =
     (if is_space c then token_count_from False cs
      else (if intok then 0 else 1) + token_count_from True cs)"

definition spec_word_count :: "string option \<Rightarrow> nat" where
  "spec_word_count v = (case v of None \<Rightarrow> 0 | Some s \<Rightarrow> token_count_from False s)"

text \<open>A body of \<open>n\<close> words, each followed by one space.\<close>

definition words_body :: "nat \<Rightarrow> string" where
  "words_body n = concat (replicate n ''word '')"

section \<open>The fee calculator\<close>

text \<open>
  \<^verbatim>\<open>Math.ceil(baseAmount * 0.04)\<close> is computed in IEEE 754 doubles. The literal
  \<^verbatim>\<open>0.04\<close> is the double \<open>5764607523034235 / 2^57\<close>; the product of an integer with it is
  the exact product rounded to 53 significant bits, ties to even. A double is kept as its
  numerator over \<open>2^57\<close>.
\<close>

definition double_0_04 :: nat where
  "double_0_04 = 5764607523034235"

fun bit_length :: "nat \<Rightarrow> nat" where
  "bit_length n = (if n = 0 then 0 else Suc (bit_length (n div 2)))"

declare bit_length.simps [simp del]

definition round_to_double :: "nat \<Rightarrow> nat" where
  "round_to_double x =
     (let b = bit_length x in
      if b \<le> 53 then x
      else
        (let s = b - 53; q = x div 2 ^ s; r = x mod 2 ^ s
         in (if 2 * r > 2 ^ s \<or> (2 * r = 2 ^ s \<and> odd q) then q + 1 else q) * 2 ^ s))"

definition times_0_04 :: "nat \<Rightarrow> nat" where
  "times_0_04 baseAmount = round_to_double (baseAmount * double_0_04)"

definition Math_ceil :: "nat \<Rightarrow> nat" where
  "Math_ceil x = (x + 2 ^ 57 - 1) div 2 ^ 57"

text \<open>
  \<^verbatim>\<open>
  const calculateFees = (baseAmount) => {
    const stripeFee = Math.ceil(baseAmount * 0.04);
    const totalAmount = baseAmount + stripeFee;
    return { stripeFee, totalAmount };
  };
  \<close>
  on a number \<open>baseAmount\<close>; the result is the pair \<open>(stripeFee, totalAmount)\<close>.
\<close>

definition calculateFees :: "nat \<Rightarrow> nat \<times> nat" where
  "calculateFees baseAmount =
     (let surcharge = Math_ceil (times_0_04 baseAmount);
          total = baseAmount + surcharge
      in (surcharge, total))"

text \<open>The specification's surcharge, in exact arithmetic: \<open>ceil(entryFee \<times> 0.04)\<close>.\<close>

definition spec_surcharge :: "nat \<Rightarrow> nat" where
  "spec_surcharge entryFee = nat \<lceil>(of_nat entryFee :: rat) * (4 / 100)\<rceil>"

text \<open>
  \<^verbatim>\<open>baseFees[category]\<close> with
  \<^verbatim>\<open>const baseFees = { 'business': 49, 'creative': 49, 'technology': 99, 'social-impact': 49 }\<close>.
  A property read on an object literal also finds what the object inherits from
  \<^verbatim>\<open>Object.prototype\<close>: eleven functions and, under \<^verbatim>\<open>__proto__\<close>, the prototype
  itself. All of them are truthy and none is a number.
\<close>

datatype property = Own_number nat | Inherited_object | Undefined_property

definition object_prototype_keys :: "string list" where
  "object_prototype_keys =
     [''constructor'', ''hasOwnProperty'', ''isPrototypeOf'', ''propertyIsEnumerable'',
      ''toLocaleString'', ''toString'', ''valueOf'', ''__defineGetter__'',
      ''__defineSetter__'', ''__lookupGetter__'', ''__lookupSetter__'', ''__proto__'']"

definition fee_table :: "(string \<times> nat) list" where
  "fee_table = [(''business'', 49), (''creative'', 49), (''technology'', 99),
     (''social-impact'', 49)]"

definition baseFees :: "string \<Rightarrow> property" where
  "baseFees category =
     (case map_of fee_table category of
        Some fee \<Rightarrow> Own_number fee
      | None \<Rightarrow>
          if category \<in> set object_prototype_keys then Inherited_object
          else Undefined_property)"

section \<open>Numbers and strings\<close>

text \<open>\<^verbatim>\<open>n.toString()\<close> and string concatenation with a non-negative integer.\<close>

fun show_nat :: "nat \<Rightarrow> string" where
  "show_nat n =
     (if n < 10 then [''0123456789'' ! n]
      else show_nat (n div 10) @ [''0123456789'' ! (n mod 10)])"

declare show_nat.simps [simp del]

text \<open>
  \<^verbatim>\<open>parseInt(v)\<close> with no radix: leading white space is skipped, then a sign, then
  \<^verbatim>\<open>0x\<close> selects radix 16, then the longest run of digits is read; with no digit the
  result is \<^verbatim>\<open>NaN\<close>. An undefined argument is read as the text \<^verbatim>\<open>undefined\<close>, which
  has no digit.
\<close>

definition digit_value :: "nat \<Rightarrow> char \<Rightarrow> nat option" where
  "digit_value radix c =
     (let n = (of_char c :: nat);
          d = (if 48 \<le> n \<and> n \<le> 57 then Some (n - 48)
               else if 97 \<le> n \<and> n \<le> 122 then Some (n - 87)
               else if 65 \<le> n \<and> n \<le> 90 then Some (n - 55)
               else None)
      in case d of None \<Rightarrow> None | Some v \<Rightarrow> if v < radix then Some v else None)"

fun parse_digits :: "nat \<Rightarrow> nat option \<Rightarrow> string \<Rightarrow> nat option" where
  "parse_digits radix acc [] = acc"
| "parse_digits radix acc (c # cs) =
     (case digit_value radix c of
        None \<Rightarrow> acc
      | Some d \<Rightarrow>
          parse_digits radix (Some (radix * (case acc of None \<Rightarrow> 0 | Some a \<Rightarrow> a) + d)) cs)"

definition parseInt :: "string option \<Rightarrow> int option" where
  "parseInt v =
     (case v of
        None \<Rightarrow> None
      | Some s \<Rightarrow>
          (let t = dropWhile is_space s;
               negative = (take 1 t = ''-'');
               t1 = (if take 1 t = ''-'' \<or> take 1 t = ''+'' then drop 1 t else t);
               hex = (take 2 t1 = ''0x'' \<or> take 2 t1 = ''0X'');
               t2 = (if hex then drop 2 t1 else t1)
           in case parse_digits (if hex then 16 else 10) None t2 of
                None \<Rightarrow> None
              | Some n \<Rightarrow> Some (if negative then - int n else int n)))"

text \<open>
  \<^verbatim>\<open>/^(https?:\/\/)?(www\.)?(youtube\.com|youtu\.be|vimeo\.com)/i.test(v)\<close>: an optional
  scheme, an optional \<^verbatim>\<open>www.\<close> and one of three hosts at the start of \<open>v\<close>, letters
  compared without case.
\<close>

definition to_lower :: "char \<Rightarrow> char" where
  "to_lower c =
     (case map_of (zip ''ABCDEFGHIJKLMNOPQRSTUVWXYZ'' ''abcdefghijklmnopqrstuvwxyz'') c of
        None \<Rightarrow> c
      | Some l \<Rightarrow> l)"

definition starts_with :: "string \<Rightarrow> string \<Rightarrow> bool" where
  "starts_with p v = (take (length p) v = p)"

definition urlPattern_test :: "string \<Rightarrow> bool" where
  "urlPattern_test v =
     list_ex (\<lambda>scheme.
       list_ex (\<lambda>www.
         list_ex (\<lambda>host. starts_with (scheme @ www @ host) (map to_lower v))
           [''youtube.com'', ''youtu.be'', ''vimeo.com''])
         ['''', ''www.''])
       ['''', ''http://'', ''https://'']"

section \<open>The Entry model\<close>

datatype payment_status = Pending | Succeeded | Failed

datatype review_status = Submitted | Under_review | Finalist | Winner | Rejected

text \<open>
  A document of the \<^verbatim>\<open>entries\<close> collection: the fields of \<^verbatim>\<open>entrySchema\<close>, the
  identifier \<^verbatim>\<open>_id\<close> and the two times that \<^verbatim>\<open>timestamps: true\<close> adds, of the
  creation and of the last update. The two enumerations the code only ever writes as
  literals are datatypes; \<open>category\<close> and \<open>entryType\<close> come from the client and stay
  strings. Times are milliseconds. The version key \<^verbatim>\<open>__v\<close>, which no operation of the
  servers changes, is left out.
\<close>

record entry =
  entry_id :: nat
  userId :: string
  category :: string
  entryType :: string
  title :: string
  description :: "string option"
  textContent :: "string option"
  fileData :: "string option"
  fileName :: "string option"
  fileType :: "string option"
  fileSize :: "nat option"
  fileUrl :: "string option"
  videoUrl :: "string option"
  entryFee :: int
  stripeFee :: int
  totalAmount :: int
  paymentIntentId :: string
  paymentStatus :: payment_status
  submissionDate :: nat
  status :: review_status
  createdAt :: nat
  updatedAt :: nat

text \<open>The validators of \<^verbatim>\<open>fileData\<close>, \<^verbatim>\<open>fileUrl\<close> and \<^verbatim>\<open>videoUrl\<close>.\<close>

definition fileData_validator :: "entry \<Rightarrow> string option \<Rightarrow> bool" where
  "fileData_validator this v =
     (if entryType this = ''pitch-deck'' then truthy v \<or> truthy (fileUrl this) else True)"

definition fileUrl_validator :: "entry \<Rightarrow> string option \<Rightarrow> bool" where
  "fileUrl_validator this v =
     (if entryType this = ''pitch-deck'' then truthy v \<or> truthy (fileData this) else True)"

definition videoUrl_validator :: "entry \<Rightarrow> string option \<Rightarrow> bool" where
  "videoUrl_validator this v =
     (if entryType this = ''video'' \<and> truthy v then urlPattern_test (the v)
      else entryType this \<noteq> ''video'' \<or> truthy v)"

text \<open>
  How the database library runs the validator declared for a field: on the value the
  document has for the field, and not at all when that value is \<^verbatim>\<open>undefined\<close>. Only
  \<^verbatim>\<open>required\<close> is checked on an undefined value.
\<close>

definition doValidate :: "(string option \<Rightarrow> bool) \<Rightarrow> string option \<Rightarrow> bool" where
  "doValidate validator v = (case v of None \<Rightarrow> True | Some x \<Rightarrow> validator (Some x))"

text \<open>
  What \<^verbatim>\<open>save\<close> and \<^verbatim>\<open>insertMany\<close> check before they write: the required fields, the
  enumerations, the length bounds, and the declared validators.
\<close>

definition schema_valid :: "entry \<Rightarrow> bool" where
  "schema_valid e =
     (userId e \<noteq> [] \<and>
      category e \<in> set [''business'', ''creative'', ''technology'', ''social-impact''] \<and>
      entryType e \<in> set [''text'', ''pitch-deck'', ''video''] \<and>
      title e \<noteq> [] \<and> 5 \<le> length (title e) \<and> length (title e) \<le> 100 \<and>
      (case description e of None \<Rightarrow> True | Some d \<Rightarrow> length d \<le> 1000) \<and>
      doValidate (textContent_validator (entryType e)) (textContent e) \<and>
      doValidate (fileData_validator e) (fileData e) \<and>
      doValidate (fileUrl_validator e) (fileUrl e) \<and>
      doValidate (videoUrl_validator e) (videoUrl e) \<and>
      paymentIntentId e \<noteq> [])"

text \<open>
  The collection, in insertion order, and the next identifier the driver hands out
  (identifiers are never used twice).
\<close>

record store =
  docs :: "entry list"
  nextId :: nat

definition empty_store :: store where
  "empty_store = \<lparr>docs = [], nextId = 0\<rparr>"

text \<open>
  \<^verbatim>\<open>new Entry(data).save()\<close>: the document gets its identifier and its timestamps and is
  appended, or the validation error is thrown and nothing is written. The other things the
  libraries throw: the error of a route parameter that is no document identifier, the error
  of a body parser, and the errors of the payment gateway.
\<close>

datatype thrown = Validation_error | Cast_error | Body_parser_error | Gateway_error string

definition save :: "nat \<Rightarrow> entry \<Rightarrow> store \<Rightarrow> thrown + (nat \<times> store)" where
  "save now data s =
     (let e = data\<lparr>entry_id := nextId s, submissionDate := now, createdAt := now, updatedAt := now\<rparr>
      in if schema_valid e
         then Inr (nextId s, \<lparr>docs = docs s @ [e], nextId = Suc (nextId s)\<rparr>)
         else Inl Validation_error)"

text \<open>\<^verbatim>\<open>Entry.insertMany(list)\<close>: all documents are validated first; one failure writes none.\<close>

definition number_from :: "nat \<Rightarrow> nat \<Rightarrow> entry list \<Rightarrow> entry list" where
  "number_from now n es =
     map (\<lambda>(i, e). e\<lparr>entry_id := n + i, submissionDate := now, createdAt := now, updatedAt := now\<rparr>)
       (enumerate 0 es)"

definition insertMany :: "nat \<Rightarrow> entry list \<Rightarrow> store \<Rightarrow> thrown + (nat list \<times> store)" where
  "insertMany now datas s =
     (let es = number_from now (nextId s) datas
      in if list_all schema_valid es
         then Inr (map entry_id es, \<lparr>docs = docs s @ es, nextId = nextId s + length es\<rparr>)
         else Inl Validation_error)"

text \<open>The fields a new document has before the handler fills it in.\<close>

definition blank_entry :: entry where
  "blank_entry =
     \<lparr>entry_id = 0, userId = [], category = [], entryType = [], title = [],
      description = None, textContent = None, fileData = None, fileName = None,
      fileType = None, fileSize = None, fileUrl = None, videoUrl = None,
      entryFee = 0, stripeFee = 0, totalAmount = 0, paymentIntentId = [],
      paymentStatus = Pending, submissionDate = 0, status = Submitted, createdAt = 0,
      updatedAt = 0\<rparr>"

section \<open>The environment, the payment gateway and the requests\<close>

text \<open>
  What a handler reads from the process: the deployment flag, whether
  \<^verbatim>\<open>process.env.NODE_ENV\<close> is \<^verbatim>\<open>production\<close>, whether
  \<^verbatim>\<open>mongoose.connection.readyState === 1\<close>, whether the variable \<^verbatim>\<open>stripe\<close> is set,
  \<^verbatim>\<open>process.env.STRIPE_WEBHOOK_SECRET\<close> and \<^verbatim>\<open>process.env.FRONTEND_URL\<close>.
\<close>

record env =
  isVercelServerless :: bool
  nodeEnvProduction :: bool
  mongoConnected :: bool
  stripeInitialized :: bool
  webhookSecret :: "string option"
  frontendUrl :: "string option"

text \<open>
  The database library is outside the repository too. Before it looks a document up by
  its identifier it casts the text it is given (here the parameter of the route) to an
  identifier, and throws a \<^verbatim>\<open>CastError\<close> when the text is none (\<^const>\<open>None\<close>);
  \<^verbatim>\<open>mongoose.Types.ObjectId.isValid\<close> is the test the second server runs first.
\<close>

record mongoose =
  castObjectId :: "string \<Rightarrow> nat option"
  ObjectId_isValid :: "string \<Rightarrow> bool"

record payment_intent =
  intent_id :: string
  client_secret :: string
  intent_status :: string
  metadata :: "(string \<times> string) list"

record stripe_event =
  event_type :: string
  object_id :: string

text \<open>
  The Stripe client is outside the repository: its three calls are parameters. A call
  returns its value or throws (\<^const>\<open>Inl\<close>). The amount of a new intent is a number or
  \<^verbatim>\<open>NaN\<close> (\<^const>\<open>None\<close>). \<^verbatim>\<open>webhooks_constructEvent\<close> is the verification of the
  bytes of a delivery against its signature header and the secret, followed by the
  parsing of the bytes.
\<close>

record gateway =
  paymentIntents_create :: "nat option \<Rightarrow> (string \<times> string) list \<Rightarrow> thrown + payment_intent"
  paymentIntents_retrieve :: "string \<Rightarrow> thrown + payment_intent"
  webhooks_constructEvent :: "string \<Rightarrow> string option \<Rightarrow> string \<Rightarrow> thrown + stripe_event"

record payment_request =
  pr_category :: "string option"
  pr_entryType :: "string option"

text \<open>\<^verbatim>\<open>req.file\<close> of multer's memory storage; the buffer is kept as its base64 text.\<close>

record upload_file =
  originalname :: string
  mimetype :: string
  file_size :: nat
  buffer_base64 :: string

text \<open>
  A request to the webhook route, as the middleware sees it: the \<^verbatim>\<open>Origin\<close> header, the
  media type of the \<^verbatim>\<open>Content-Type\<close> header (in lower case, without parameters, and empty
  when the request has no body), the bytes of the body, whether these bytes are JSON text
  (an object or an array, which is what the parser accepts), and the
  \<^verbatim>\<open>stripe-signature\<close> header.
\<close>

record delivery =
  origin :: "string option"
  media_type :: string
  payload :: string
  payload_is_json :: bool
  stripe_signature :: "string option"

text \<open>
  \<^verbatim>\<open>req.body\<close>: not read by any parser (then it is undefined or the empty object), an
  object that a parser has built from the bytes, or the bytes themselves in a
  \<^verbatim>\<open>Buffer\<close>.
\<close>

datatype req_body = Not_read | Object_body | Buffer_body string

text \<open>The fields the submission handler takes from \<^verbatim>\<open>req.body\<close>, and \<^verbatim>\<open>req.file\<close>.\<close>

record entry_request =
  req_userId :: "string option"
  req_category :: "string option"
  req_entryType :: "string option"
  req_title :: "string option"
  req_description :: "string option"
  req_textContent :: "string option"
  req_videoUrl :: "string option"
  req_paymentIntentId :: "string option"
  req_file :: "upload_file option"

datatype fees_json = Fees nat nat nat | Fees_not_numbers

text \<open>
  The responses: \<^verbatim>\<open>res.status(code).json({ error: message, ... })\<close>,
  \<^verbatim>\<open>res.status(code).send(text)\<close> (the text without the message of the error), and one
  constructor for each success body.
\<close>

datatype response =
    Json_error nat string
  | Text_error nat string
  | Test_entry_created nat
  | Test_entries_created "nat list"
  | Intent_created string fees_json
  | Entry_submitted nat
  | Entries "entry list"
  | Entry_found entry
  | Entry_deleted
  | Received

fun status_code :: "response \<Rightarrow> nat" where
  "status_code (Json_error code message) = code"
| "status_code (Text_error code message) = code"
| "status_code (Entry_submitted entryId) = 201"
| "status_code r = 200"

section \<open>The handlers\<close>

subsection \<open>Middleware\<close>

text \<open>
  The first server mounts two things for every route, before the routes: the CORS check
  and the body parsers. The CORS check lets a request pass when it has no
  \<^verbatim>\<open>Origin\<close> header or when its origin is one of \<^verbatim>\<open>allowedOrigins\<close>; otherwise its error
  goes to the global error handler. The routes other than the webhook are modelled from the
  point where the request has passed both, with the fields of its body parsed.
\<close>

definition allowedOrigins :: "env \<Rightarrow> string list" where
  "allowedOrigins env =
     [''http://localhost:3000'', ''http://localhost:5173'',
      (if falsy (frontendUrl env)
       then ''https://alatree-ventures-assignments-dobl-frkce6h7n.vercel.app''
       else the (frontendUrl env))]"

definition cors :: "env \<Rightarrow> string option \<Rightarrow> bool" where
  "cors env request_origin =
     (falsy request_origin \<or> the request_origin \<in> set (allowedOrigins env))"

definition allowed_mime_types :: "string list" where
  "allowed_mime_types =
     [''application/pdf'', ''application/vnd.ms-powerpoint'',
      ''application/vnd.openxmlformats-officedocument.presentationml.presentation'']"

text \<open>
  \<^verbatim>\<open>fileFilter\<close> accepts when \<^verbatim>\<open>allowedTypes[file.mimetype]\<close> is truthy; the object
  literal has the three types as keys and inherits the keys of \<^verbatim>\<open>Object.prototype\<close>.
\<close>

definition fileFilter :: "upload_file \<Rightarrow> bool" where
  "fileFilter file =
     (mimetype file \<in> set allowed_mime_types \<or> mimetype file \<in> set object_prototype_keys)"

definition maxSize :: "env \<Rightarrow> nat" where
  "maxSize env = (if isVercelServerless env then 4 * 1024 * 1024 else 25 * 1024 * 1024)"

text \<open>
  The first middleware of \<^verbatim>\<open>POST /api/entries\<close>: multer's \<^verbatim>\<open>upload\<close>, whose error is
  answered with 400. \<^const>\<open>None\<close> is \<^verbatim>\<open>next()\<close>.
\<close>

definition upload :: "env \<Rightarrow> entry_request \<Rightarrow> response option" where
  "upload env req =
     (case req_file req of
        None \<Rightarrow> None
      | Some file \<Rightarrow>
          if \<not> fileFilter file
          then Some (Json_error 400 ''Invalid file type. Only PDF and PPT files are allowed.'')
          else if file_size file > maxSize env then Some (Json_error 400 ''File too large'')
          else None)"

definition checkMongoDBConnection :: "env \<Rightarrow> response option" where
  "checkMongoDBConnection env =
     (if \<not> mongoConnected env
      then Some (Json_error 503 ''Service unavailable: Database not connected'')
      else None)"

definition checkStripeInitialized :: "env \<Rightarrow> response option" where
  "checkStripeInitialized env =
     (if \<not> stripeInitialized env
      then Some (Json_error 503 ''Service unavailable: Stripe not initialized'')
      else None)"

text \<open>
  The body parsers of express. A parser leaves the request alone when an earlier parser
  has read the body or when the media type is not its own; otherwise it reads the body,
  fails when the body is longer than its limit, and sets \<^verbatim>\<open>req.body\<close>.
  \<^verbatim>\<open>express.json\<close> fails on bytes that are no JSON text; \<^verbatim>\<open>express.raw\<close> has the limit
  \<^verbatim>\<open>100kb\<close> unless it is given another.
\<close>

definition body_parser ::
  "string \<Rightarrow> nat \<Rightarrow> (delivery \<Rightarrow> thrown + req_body) \<Rightarrow> delivery \<Rightarrow> req_body \<Rightarrow> thrown + req_body"
where
  "body_parser media limit parse d body =
     (if body \<noteq> Not_read \<or> media_type d \<noteq> media then Inr body
      else if length (payload d) > limit then Inl Body_parser_error
      else parse d)"

definition express_json :: "nat \<Rightarrow> delivery \<Rightarrow> req_body \<Rightarrow> thrown + req_body" where
  "express_json limit =
     body_parser ''application/json'' limit
       (\<lambda>d. if payload_is_json d then Inr Object_body else Inl Body_parser_error)"

definition express_urlencoded :: "nat \<Rightarrow> delivery \<Rightarrow> req_body \<Rightarrow> thrown + req_body" where
  "express_urlencoded limit =
     body_parser ''application/x-www-form-urlencoded'' limit (\<lambda>d. Inr Object_body)"

definition express_raw :: "delivery \<Rightarrow> req_body \<Rightarrow> thrown + req_body" where
  "express_raw =
     body_parser ''application/json'' (100 * 1024) (\<lambda>d. Inr (Buffer_body (payload d)))"

subsection \<open>Test entries\<close>

definition test_entry_text :: string where
  "test_entry_text = concat (replicate 2 ''This is a comprehensive business strategy...'')"

definition test_entries_text :: string where
  "test_entries_text =
     concat (replicate 3 ''This business strategy focuses on digital transformation...'')"

text \<open>\<^verbatim>\<open>s.replace(pattern, replacement)\<close> with a string pattern: the first occurrence.\<close>

fun replace_first :: "string \<Rightarrow> string \<Rightarrow> string \<Rightarrow> string" where
  "replace_first pat rep [] = (if pat = [] then rep else [])"
| "replace_first pat rep (c # cs) =
     (if starts_with pat (c # cs) then rep @ drop (length pat) (c # cs)
      else c # replace_first pat rep cs)"

text \<open>
  \<^verbatim>\<open>GET /api/create-test-entry/:userId\<close>. The revisions of the file differ in the text
  of the entry only, so the text is a parameter; \<^const>\<open>test_entry_text\<close> is the one of
  \<^verbatim>\<open>server.js\<close>.
\<close>

definition create_test_entry :: "string \<Rightarrow> env \<Rightarrow> nat \<Rightarrow> string \<Rightarrow> store \<Rightarrow> response \<times> store" where
  "create_test_entry text env now uid s =
     (case checkMongoDBConnection env of
        Some r \<Rightarrow> (r, s)
      | None \<Rightarrow>
          (case save now
              (blank_entry\<lparr>userId := uid, category := ''business'', entryType := ''text'',
                 title := ''Sample Business Strategy Entry'',
                 description := Some ''A comprehensive business strategy for digital transformation in modern enterprises'',
                 textContent := Some text, entryFee := 49, stripeFee := 2, totalAmount := 51,
                 paymentIntentId := ''pi_test_'' @ show_nat now,
                 paymentStatus := Succeeded\<rparr>) s of
             Inl err \<Rightarrow> (Json_error 500 ''Failed to create test entry'', s)
           | Inr (entryId, s') \<Rightarrow> (Test_entry_created entryId, s')))"

definition testEntries :: "string \<Rightarrow> nat \<Rightarrow> string \<Rightarrow> entry list" where
  "testEntries baseTextContent now uid =
     [blank_entry\<lparr>userId := uid, category := ''business'', entryType := ''text'',
        title := ''Innovative Business Strategy'',
        description := Some ''A comprehensive business strategy for modern markets'',
        textContent := Some baseTextContent, entryFee := 49, stripeFee := 2,
        totalAmount := 51, paymentIntentId := ''pi_test_business_'' @ show_nat now,
        paymentStatus := Succeeded, status := Submitted\<rparr>,
      blank_entry\<lparr>userId := uid, category := ''technology'', entryType := ''text'',
        title := ''AI-Powered Solution Platform'',
        description := Some ''Revolutionary AI application for enterprise automation'',
        textContent :=
          Some (replace_first ''business strategy'' ''AI technology solution'' baseTextContent),
        entryFee := 99, stripeFee := 4, totalAmount := 103,
        paymentIntentId := ''pi_test_tech_'' @ show_nat now,
        paymentStatus := Succeeded, status := Under_review\<rparr>,
      blank_entry\<lparr>userId := uid, category := ''creative'', entryType := ''video'',
        title := ''Creative Digital Showcase'',
        description := Some ''Artistic expression through innovative digital media'',
        videoUrl := Some ''https://www.youtube.com/watch?v=dQw4w9WgXcQ'',
        entryFee := 49, stripeFee := 2, totalAmount := 51,
        paymentIntentId := ''pi_test_creative_'' @ show_nat now,
        paymentStatus := Succeeded, status := Finalist\<rparr>]"

definition create_test_entries :: "string \<Rightarrow> env \<Rightarrow> nat \<Rightarrow> string \<Rightarrow> store \<Rightarrow> response \<times> store" where
  "create_test_entries baseTextContent env now uid s =
     (case checkMongoDBConnection env of
        Some r \<Rightarrow> (r, s)
      | None \<Rightarrow>
          (case insertMany now (testEntries baseTextContent now uid) s of
             Inl err \<Rightarrow> (Json_error 500 ''Failed to create test entries'', s)
           | Inr (ids, s') \<Rightarrow> (Test_entries_created ids, s')))"

subsection \<open>Creating a payment intent\<close>

text \<open>
  \<^verbatim>\<open>entryFee.toString()\<close> when \<^verbatim>\<open>baseFees[category]\<close> is an inherited property: the
  text of a native function, or of the prototype object.
\<close>

definition inherited_toString :: "string \<Rightarrow> string" where
  "inherited_toString key =
     (if key = ''__proto__'' then ''[object Object]''
      else ''function '' @ (if key = ''constructor'' then ''Object'' else key) @
        ''() { [native code] }'')"

text \<open>
  \<^verbatim>\<open>POST /api/create-payment-intent\<close>. With a number from the table the fees are
  computed and the intent is created for \<^verbatim>\<open>totalAmount * 100\<close>. With an inherited
  property \<^verbatim>\<open>!entryFee\<close> is false as well: \<^verbatim>\<open>baseAmount * 0.04\<close> is \<^verbatim>\<open>NaN\<close>,
  \<^verbatim>\<open>baseAmount + stripeFee\<close> is a string, and the amount handed to the gateway is
  \<^verbatim>\<open>NaN\<close>.
\<close>

definition create_payment_intent :: "gateway \<Rightarrow> env \<Rightarrow> payment_request \<Rightarrow> response" where
  "create_payment_intent stripe env body =
     (case checkStripeInitialized env of
        Some r \<Rightarrow> r
      | None \<Rightarrow>
          if falsy (pr_category body) \<or> falsy (pr_entryType body)
          then Json_error 400 ''Category and entryType are required''
          else
            (let cat = the (pr_category body); etype = the (pr_entryType body)
             in case baseFees cat of
                  Undefined_property \<Rightarrow> Json_error 400 ''Invalid category''
                | Own_number fee \<Rightarrow>
                    if fee = 0 then Json_error 400 ''Invalid category''
                    else
                      (let surcharge = fst (calculateFees fee);
                           total = snd (calculateFees fee)
                       in case paymentIntents_create stripe (Some (total * 100))
                              [(''category'', cat), (''entryType'', etype),
                               (''entryFee'', show_nat fee),
                               (''stripeFee'', show_nat surcharge)] of
                            Inl err \<Rightarrow> Json_error 500 ''Failed to create payment intent''
                          | Inr paymentIntent \<Rightarrow>
                              Intent_created (client_secret paymentIntent)
                                (Fees fee surcharge total))
                | Inherited_object \<Rightarrow>
                    (case paymentIntents_create stripe None
                        [(''category'', cat), (''entryType'', etype),
                         (''entryFee'', inherited_toString cat),
                         (''stripeFee'', ''NaN'')] of
                       Inl err \<Rightarrow> Json_error 500 ''Failed to create payment intent''
                     | Inr paymentIntent \<Rightarrow>
                         Intent_created (client_secret paymentIntent) Fees_not_numbers)))"

subsection \<open>Submitting an entry\<close>

text \<open>The check of the attached file for a \<open>pitch-deck\<close> entry; \<^const>\<open>None\<close> lets it pass.\<close>

definition pitch_deck_check :: "env \<Rightarrow> entry_request \<Rightarrow> response option" where
  "pitch_deck_check env req =
     (if req_entryType req = Some ''pitch-deck'' then
        (case req_file req of
           None \<Rightarrow> Some (Json_error 400 ''File required for pitch-deck entries'')
         | Some file \<Rightarrow>
             if mimetype file \<notin> set allowed_mime_types
             then Some (Json_error 400 ''Invalid file type. Only PDF, PPT, PPTX allowed.'')
             else if file_size file > maxSize env
             then Some (Json_error 400
                    (if isVercelServerless env then ''File size exceeds 4MB limit.''
                     else ''File size exceeds 25MB limit.''))
             else None)
      else None)"

text \<open>\<^verbatim>\<open>entryData\<close>, from the request and the two fees read from the intent.\<close>

definition entryData :: "entry_request \<Rightarrow> int \<Rightarrow> int \<Rightarrow> entry" where
  "entryData req fee surcharge =
     (let pid = the (req_paymentIntentId req);
          etype = the (req_entryType req);
          total = fee + surcharge;
          data = blank_entry\<lparr>userId := the (req_userId req),
                   category := the (req_category req), entryType := etype,
                   title := the (req_title req), description := req_description req,
                   entryFee := fee, stripeFee := surcharge, totalAmount := total,
                   paymentIntentId := pid, paymentStatus := Succeeded\<rparr>
      in if etype = ''text'' then data\<lparr>textContent := req_textContent req\<rparr>
         else if etype = ''pitch-deck'' \<and> req_file req \<noteq> None then
           (let file = the (req_file req)
            in data\<lparr>fileData := Some (buffer_base64 file),
                 fileName := Some (originalname file), fileType := Some (mimetype file),
                 fileSize := Some (file_size file),
                 fileUrl := Some (''/api/file/'' @ pid)\<rparr>)
         else if etype = ''video'' then data\<lparr>videoUrl := req_videoUrl req\<rparr>
         else data)"

text \<open>
  The handler of \<^verbatim>\<open>POST /api/entries\<close>, with its \<^verbatim>\<open>try\<close>/\<^verbatim>\<open>catch\<close>: whatever is
  thrown (by the gateway, or by \<^verbatim>\<open>save\<close>) is answered with 500. A fee that
  \<^verbatim>\<open>parseInt\<close> reads as \<^verbatim>\<open>NaN\<close> cannot be stored in a Number field: \<^verbatim>\<open>save\<close> throws.
\<close>

definition submit_handler :: "gateway \<Rightarrow> env \<Rightarrow> nat \<Rightarrow> entry_request \<Rightarrow> store \<Rightarrow> response \<times> store" where
  "submit_handler stripe env now req s =
     (if falsy (req_userId req) \<or> falsy (req_category req) \<or> falsy (req_entryType req) \<or>
         falsy (req_title req) \<or> falsy (req_paymentIntentId req)
      then (Json_error 400 ''Missing required fields'', s)
      else
        (case pitch_deck_check env req of
           Some r \<Rightarrow> (r, s)
         | None \<Rightarrow>
             (case paymentIntents_retrieve stripe (the (req_paymentIntentId req)) of
                Inl err \<Rightarrow> (Json_error 500 ''Failed to submit entry'', s)
              | Inr paymentIntent \<Rightarrow>
                  if intent_status paymentIntent \<noteq> ''succeeded''
                  then (Json_error 400 ''Payment not completed'', s)
                  else
                    (case (parseInt (map_of (metadata paymentIntent) ''entryFee''),
                           parseInt (map_of (metadata paymentIntent) ''stripeFee'')) of
                       (Some fee, Some surcharge) \<Rightarrow>
                         (case save now (entryData req fee surcharge) s of
                            Inl err \<Rightarrow> (Json_error 500 ''Failed to submit entry'', s)
                          | Inr (entryId, s') \<Rightarrow> (Entry_submitted entryId, s'))
                     | _ \<Rightarrow> (Json_error 500 ''Failed to submit entry'', s)))))"

text \<open>The route: \<^verbatim>\<open>upload\<close>, the two availability checks, then the handler.\<close>

definition submit_entry :: "gateway \<Rightarrow> env \<Rightarrow> nat \<Rightarrow> entry_request \<Rightarrow> store \<Rightarrow> response \<times> store" where
  "submit_entry stripe env now req s =
     (case upload env req of
        Some r \<Rightarrow> (r, s)
      | None \<Rightarrow>
          (case checkMongoDBConnection env of
             Some r \<Rightarrow> (r, s)
           | None \<Rightarrow>
               (case checkStripeInitialized env of
                  Some r \<Rightarrow> (r, s)
                | None \<Rightarrow> submit_handler stripe env now req s)))"

text \<open>The request gets as far as the retrieval of the payment intent.\<close>

definition reaches_retrieval :: "env \<Rightarrow> entry_request \<Rightarrow> bool" where
  "reaches_retrieval env req =
     (upload env req = None \<and> mongoConnected env \<and> stripeInitialized env \<and>
      truthy (req_userId req) \<and> truthy (req_category req) \<and> truthy (req_entryType req) \<and>
      truthy (req_title req) \<and> truthy (req_paymentIntentId req) \<and>
      pitch_deck_check env req = None)"

subsection \<open>Reading and deleting entries\<close>

text \<open>
  What the two read routes do to a document before they send it: a pitch deck with inline
  data gets its retrieval URL, and \<^verbatim>\<open>delete entry.fileData\<close>.
\<close>

definition transform_entry :: "entry \<Rightarrow> entry" where
  "transform_entry e =
     (if entryType e = ''pitch-deck'' \<and> truthy (fileData e)
      then e\<lparr>fileUrl := Some (''/api/file/'' @ paymentIntentId e)\<rparr>
      else e)\<lparr>fileData := None\<rparr>"

text \<open>
  \<^verbatim>\<open>Entry.find({ userId }).sort({ createdAt: -1 })\<close>: the documents of the owner, the
  latest first (documents of one creation time keep their order).
\<close>

definition find_sorted :: "string \<Rightarrow> entry list \<Rightarrow> entry list" where
  "find_sorted uid ds = sort_key (\<lambda>e. - int (createdAt e)) (filter (\<lambda>e. userId e = uid) ds)"

definition list_entries :: "env \<Rightarrow> string \<Rightarrow> store \<Rightarrow> response" where
  "list_entries env uid s =
     (case checkMongoDBConnection env of
        Some r \<Rightarrow> r
      | None \<Rightarrow> Entries (map transform_entry (find_sorted uid (docs s))))"

text \<open>
  \<^verbatim>\<open>Entry.findById(id)\<close> and \<^verbatim>\<open>Entry.findByIdAndDelete(id)\<close>, once the identifier is
  cast: the document with that identifier, and the collection without it.
\<close>

definition findById :: "nat \<Rightarrow> entry list \<Rightarrow> entry option" where
  "findById entryId ds = find (\<lambda>e. entry_id e = entryId) ds"

fun findByIdAndDelete :: "nat \<Rightarrow> entry list \<Rightarrow> entry list" where
  "findByIdAndDelete entryId [] = []"
| "findByIdAndDelete entryId (e # es) =
     (if entry_id e = entryId then es else e # findByIdAndDelete entryId es)"

text \<open>
  \<^verbatim>\<open>GET /api/entry/:id\<close>; \<open>param\<close> is \<^verbatim>\<open>req.params.id\<close>, any text. When it is no
  identifier, \<^verbatim>\<open>findById\<close> throws and the \<^verbatim>\<open>catch\<close> answers 500.
\<close>

definition get_entry :: "mongoose \<Rightarrow> env \<Rightarrow> string \<Rightarrow> store \<Rightarrow> response" where
  "get_entry db env param s =
     (case checkMongoDBConnection env of
        Some r \<Rightarrow> r
      | None \<Rightarrow>
          (case castObjectId db param of
             None \<Rightarrow> Json_error 500 ''Failed to fetch entry''
           | Some entryId \<Rightarrow>
               (case findById entryId (docs s) of
                  None \<Rightarrow> Json_error 404 ''Entry not found''
                | Some e \<Rightarrow> Entry_found (transform_entry e))))"

text \<open>
  \<^verbatim>\<open>DELETE /api/entries/:id\<close>; \<open>param\<close> is \<^verbatim>\<open>req.params.id\<close> and \<open>uid\<close> is
  \<^verbatim>\<open>req.body.userId\<close>, which may be undefined. When \<open>param\<close> is no identifier,
  \<^verbatim>\<open>findById\<close> throws and the \<^verbatim>\<open>catch\<close> answers 500.
\<close>

definition delete_entry ::
  "mongoose \<Rightarrow> env \<Rightarrow> string \<Rightarrow> string option \<Rightarrow> store \<Rightarrow> response \<times> store"
where
  "delete_entry db env param uid s =
     (case checkMongoDBConnection env of
        Some r \<Rightarrow> (r, s)
      | None \<Rightarrow>
          (case castObjectId db param of
             None \<Rightarrow> (Json_error 500 ''Failed to delete entry'', s)
           | Some entryId \<Rightarrow>
               (case findById entryId (docs s) of
                  None \<Rightarrow> (Json_error 404 ''Entry not found'', s)
                | Some e \<Rightarrow>
                    if Some (userId e) \<noteq> uid
                    then (Json_error 403 ''Not authorized to delete this entry'', s)
                    else (Entry_deleted, s\<lparr>docs := findByIdAndDelete entryId (docs s)\<rparr>))))"

subsection \<open>The webhook\<close>

text \<open>
  \<^verbatim>\<open>Entry.findOneAndUpdate({ paymentIntentId: id }, { paymentStatus: 'failed' })\<close>: the
  first document with that payment intent, if there is one, gets the new status, and the
  time of its last update, which \<^verbatim>\<open>timestamps: true\<close> maintains.
\<close>

fun findOneAndUpdate_failed :: "nat \<Rightarrow> string \<Rightarrow> entry list \<Rightarrow> entry list" where
  "findOneAndUpdate_failed now pid [] = []"
| "findOneAndUpdate_failed now pid (e # es) =
     (if paymentIntentId e = pid then e\<lparr>paymentStatus := Failed, updatedAt := now\<rparr> # es
      else e # findOneAndUpdate_failed now pid es)"

text \<open>
  What \<^verbatim>\<open>req.body\<close> is when the handler of the webhook runs. The parsers that the
  server mounts for every route, \<^verbatim>\<open>express.json\<close> and \<^verbatim>\<open>express.urlencoded\<close> with the
  limit \<^verbatim>\<open>50mb\<close>, come first; the \<^verbatim>\<open>express.raw\<close> of the route comes after them. An
  error of a parser goes to the global error handler, as the error of the CORS check does.
\<close>

definition webhook_body :: "delivery \<Rightarrow> thrown + req_body" where
  "webhook_body d =
     (case express_json (50 * 1024 * 1024) d Not_read of
        Inl err \<Rightarrow> Inl err
      | Inr parsed \<Rightarrow>
          (case express_urlencoded (50 * 1024 * 1024) d parsed of
             Inl err \<Rightarrow> Inl err
           | Inr parsed' \<Rightarrow> express_raw d parsed'))"

text \<open>
  \<^verbatim>\<open>stripe.webhooks.constructEvent(req.body, sig, secret)\<close>. The library checks the
  signature against the bytes that were sent and then parses them; it needs the body as a
  string or a \<^verbatim>\<open>Buffer\<close> and throws on anything else.
\<close>

definition constructEvent ::
  "gateway \<Rightarrow> req_body \<Rightarrow> string option \<Rightarrow> string \<Rightarrow> thrown + stripe_event"
where
  "constructEvent stripe body sig secret =
     (case body of
        Buffer_body bytes \<Rightarrow> webhooks_constructEvent stripe bytes sig secret
      | _ \<Rightarrow> Inl (Gateway_error ''Webhook payload must be provided as a string or a Buffer''))"

text \<open>
  The first half of the \<^verbatim>\<open>try\<close> block of \<^verbatim>\<open>POST /api/webhook\<close>: a missing secret
  throws, an unset \<^verbatim>\<open>stripe\<close> throws, and \<^verbatim>\<open>constructEvent\<close> throws when the
  signature does not verify.
\<close>

definition verified_event ::
  "gateway \<Rightarrow> env \<Rightarrow> req_body \<Rightarrow> string option \<Rightarrow> thrown + stripe_event"
where
  "verified_event stripe env body sig =
     (if falsy (webhookSecret env)
      then Inl (Gateway_error ''STRIPE_WEBHOOK_SECRET not found in environment variables'')
      else if \<not> stripeInitialized env
      then Inl (Gateway_error ''Cannot read properties of undefined'')
      else constructEvent stripe body sig (the (webhookSecret env)))"

text \<open>
  \<^verbatim>\<open>POST /api/webhook\<close>: the \<^verbatim>\<open>catch\<close> answers 400. The update of a failed payment
  is started without being awaited; the model lets it take effect with the request.
\<close>

definition webhook ::
  "gateway \<Rightarrow> env \<Rightarrow> nat \<Rightarrow> delivery \<Rightarrow> store \<Rightarrow> response \<times> store"
where
  "webhook stripe env now d s =
     (if \<not> cors env (origin d) then (Json_error 500 ''Internal server error'', s)
      else
        (case webhook_body d of
           Inl err \<Rightarrow> (Json_error 500 ''Internal server error'', s)
         | Inr body \<Rightarrow>
             (case verified_event stripe env body (stripe_signature d) of
                Inl err \<Rightarrow> (Json_error 400 ''Webhook error'', s)
              | Inr event \<Rightarrow>
                  if event_type event = ''payment_intent.payment_failed''
                  then (Received,
                        s\<lparr>docs := findOneAndUpdate_failed now (object_id event) (docs s)\<rparr>)
                  else (Received, s))))"

subsection \<open>The second document of \<^verbatim>\<open>server.js\<close>\<close>

text \<open>
  The file holds a second server. Its schema has no \<^verbatim>\<open>fileData\<close>, \<^verbatim>\<open>fileName\<close>,
  \<^verbatim>\<open>fileType\<close> and \<^verbatim>\<open>fileSize\<close> (these fields stay \<^const>\<open>None\<close>), and the validator of
  \<^verbatim>\<open>fileUrl\<close> asks for the URL itself; the validators of \<^verbatim>\<open>textContent\<close> and \<^verbatim>\<open>videoUrl\<close>
  are those of the first server.
\<close>

definition fileUrl_validator_v2 :: "entry \<Rightarrow> string option \<Rightarrow> bool" where
  "fileUrl_validator_v2 this v = (if entryType this = ''pitch-deck'' then truthy v else True)"

definition schema_valid_v2 :: "entry \<Rightarrow> bool" where
  "schema_valid_v2 e =
     (userId e \<noteq> [] \<and>
      category e \<in> set [''business'', ''creative'', ''technology'', ''social-impact''] \<and>
      entryType e \<in> set [''text'', ''pitch-deck'', ''video''] \<and>
      title e \<noteq> [] \<and> 5 \<le> length (title e) \<and> length (title e) \<le> 100 \<and>
      (case description e of None \<Rightarrow> True | Some d \<Rightarrow> length d \<le> 1000) \<and>
      doValidate (textContent_validator (entryType e)) (textContent e) \<and>
      doValidate (fileUrl_validator_v2 e) (fileUrl e) \<and>
      doValidate (videoUrl_validator e) (videoUrl e) \<and>
      paymentIntentId e \<noteq> [])"

definition save_v2 :: "nat \<Rightarrow> entry \<Rightarrow> store \<Rightarrow> thrown + (nat \<times> store)" where
  "save_v2 now data s =
     (let e = data\<lparr>entry_id := nextId s, submissionDate := now, createdAt := now, updatedAt := now\<rparr>
      in if schema_valid_v2 e
         then Inr (nextId s, \<lparr>docs = docs s @ [e], nextId = Suc (nextId s)\<rparr>)
         else Inl Validation_error)"

text \<open>
  Every route but the health check first connects to the database, and answers 503 when
  that fails.
\<close>

definition connect_middleware :: "env \<Rightarrow> response option" where
  "connect_middleware env =
     (if \<not> mongoConnected env then Some (Json_error 503 ''Service temporarily unavailable'')
      else None)"

text \<open>
  \<^verbatim>\<open>upload.single('file')\<close> of \<^verbatim>\<open>POST /api/entries\<close>. Its errors go to the error handler
  at the end of the file: 400 for a file above 25 MB, 500 for the error of
  \<^verbatim>\<open>fileFilter\<close>, which is the \<^const>\<open>fileFilter\<close> of the first server.
\<close>

definition upload_v2 :: "entry_request \<Rightarrow> response option" where
  "upload_v2 req =
     (case req_file req of
        None \<Rightarrow> None
      | Some file \<Rightarrow>
          if \<not> fileFilter file then Some (Json_error 500 ''Internal server error'')
          else if file_size file > 25 * 1024 * 1024
          then Some (Json_error 400 ''File too large. Maximum size is 25MB.'')
          else None)"

definition pitch_deck_check_v2 :: "entry_request \<Rightarrow> response option" where
  "pitch_deck_check_v2 req =
     (if req_entryType req = Some ''pitch-deck'' then
        (case req_file req of
           None \<Rightarrow> Some (Json_error 400 ''File required for pitch-deck entries'')
         | Some file \<Rightarrow>
             if mimetype file \<notin> set allowed_mime_types
             then Some (Json_error 400 ''Invalid file type. Only PDF, PPT, PPTX allowed.'')
             else if file_size file > 25 * 1024 * 1024
             then Some (Json_error 400 ''File size exceeds 25MB limit.'')
             else None)
      else None)"

text \<open>
  \<^verbatim>\<open>entryData\<close> of the second server: the description is \<^verbatim>\<open>description || ''\<close>, and a
  pitch deck gets the URL \<^verbatim>\<open>temp://\<close> followed by the name of the file.
\<close>

definition entryData_v2 :: "entry_request \<Rightarrow> int \<Rightarrow> int \<Rightarrow> entry" where
  "entryData_v2 req fee surcharge =
     (let pid = the (req_paymentIntentId req);
          etype = the (req_entryType req);
          total = fee + surcharge;
          data = blank_entry\<lparr>userId := the (req_userId req),
                   category := the (req_category req), entryType := etype,
                   title := the (req_title req),
                   description :=
                     Some (if falsy (req_description req) then [] else the (req_description req)),
                   entryFee := fee, stripeFee := surcharge, totalAmount := total,
                   paymentIntentId := pid, paymentStatus := Succeeded\<rparr>
      in if etype = ''text'' then data\<lparr>textContent := req_textContent req\<rparr>
         else if etype = ''pitch-deck'' \<and> req_file req \<noteq> None then
           data\<lparr>fileUrl := Some (''temp://'' @ originalname (the (req_file req)))\<rparr>
         else if etype = ''video'' then data\<lparr>videoUrl := req_videoUrl req\<rparr>
         else data)"

text \<open>
  The handler of \<^verbatim>\<open>POST /api/entries\<close>. Its \<^verbatim>\<open>catch\<close> answers a validation error with
  400 and any other error with 500; a fee that \<^verbatim>\<open>parseInt\<close> reads as \<^verbatim>\<open>NaN\<close> is refused
  by the validation of \<^verbatim>\<open>save\<close>.
\<close>

definition submit_handler_v2 ::
  "gateway \<Rightarrow> env \<Rightarrow> nat \<Rightarrow> entry_request \<Rightarrow> store \<Rightarrow> response \<times> store"
where
  "submit_handler_v2 stripe env now req s =
     (if falsy (req_userId req) \<or> falsy (req_category req) \<or> falsy (req_entryType req) \<or>
         falsy (req_title req) \<or> falsy (req_paymentIntentId req)
      then (Json_error 400 ''Missing required fields'', s)
      else
        (case pitch_deck_check_v2 req of
           Some r \<Rightarrow> (r, s)
         | None \<Rightarrow>
             if \<not> stripeInitialized env
             then (Json_error 500 ''Payment processing not available'', s)
             else
               (case paymentIntents_retrieve stripe (the (req_paymentIntentId req)) of
                  Inl err \<Rightarrow> (Json_error 500 ''Failed to submit entry'', s)
                | Inr paymentIntent \<Rightarrow>
                    if intent_status paymentIntent \<noteq> ''succeeded''
                    then (Json_error 400 ''Payment not completed'', s)
                    else
                      (case (parseInt (map_of (metadata paymentIntent) ''entryFee''),
                             parseInt (map_of (metadata paymentIntent) ''stripeFee'')) of
                         (Some fee, Some surcharge) \<Rightarrow>
                           (case save_v2 now (entryData_v2 req fee surcharge) s of
                              Inl err \<Rightarrow> (Json_error 400 ''Validation failed'', s)
                            | Inr (entryId, s') \<Rightarrow> (Entry_submitted entryId, s'))
                       | _ \<Rightarrow> (Json_error 400 ''Validation failed'', s)))))"

definition submit_entry_v2 ::
  "gateway \<Rightarrow> env \<Rightarrow> nat \<Rightarrow> entry_request \<Rightarrow> store \<Rightarrow> response \<times> store"
where
  "submit_entry_v2 stripe env now req s =
     (case connect_middleware env of
        Some r \<Rightarrow> (r, s)
      | None \<Rightarrow>
          (case upload_v2 req of
             Some r \<Rightarrow> (r, s)
           | None \<Rightarrow> submit_handler_v2 stripe env now req s))"

text \<open>\<^verbatim>\<open>GET /api/entries/:userId\<close> returns the documents as found.\<close>

definition list_entries_v2 :: "env \<Rightarrow> string \<Rightarrow> store \<Rightarrow> response" where
  "list_entries_v2 env uid s =
     (case connect_middleware env of
        Some r \<Rightarrow> r
      | None \<Rightarrow> Entries (find_sorted uid (docs s)))"

text \<open>
  \<^verbatim>\<open>DELETE /api/entries/:id\<close> tests the format of the identifier and the presence of
  \<^verbatim>\<open>req.body.userId\<close> before it looks the document up.
\<close>

definition delete_entry_v2 ::
  "mongoose \<Rightarrow> env \<Rightarrow> string \<Rightarrow> string option \<Rightarrow> store \<Rightarrow> response \<times> store"
where
  "delete_entry_v2 db env param uid s =
     (case connect_middleware env of
        Some r \<Rightarrow> (r, s)
      | None \<Rightarrow>
          if \<not> ObjectId_isValid db param then (Json_error 400 ''Invalid entry ID format'', s)
          else if falsy uid then (Json_error 400 ''User ID required'', s)
          else
            (case castObjectId db param of
               None \<Rightarrow> (Json_error 500 ''Failed to delete entry'', s)
             | Some entryId \<Rightarrow>
                 (case findById entryId (docs s) of
                    None \<Rightarrow> (Json_error 404 ''Entry not found'', s)
                  | Some e \<Rightarrow>
                      if Some (userId e) \<noteq> uid
                      then (Json_error 403 ''Not authorized to delete this entry'', s)
                      else (Entry_deleted,
                            s\<lparr>docs := findByIdAndDelete entryId (docs s)\<rparr>))))"

text \<open>
  \<^verbatim>\<open>GET /api/create-test-entry/:userId\<close> is mounted unless \<^verbatim>\<open>NODE_ENV\<close> is
  \<^verbatim>\<open>production\<close>; then the request ends in the handler for unknown routes. The text of
  the entry is a parameter, as for the first server.
\<close>

definition create_test_entry_v2 ::
  "string \<Rightarrow> env \<Rightarrow> nat \<Rightarrow> string \<Rightarrow> store \<Rightarrow> response \<times> store"
where
  "create_test_entry_v2 content env now uid s =
     (case connect_middleware env of
        Some r \<Rightarrow> (r, s)
      | None \<Rightarrow>
          if nodeEnvProduction env then (Json_error 404 ''Not found'', s)
          else
            (case save_v2 now
                (blank_entry\<lparr>userId := uid, category := ''business'', entryType := ''text'',
                   title := ''Sample Business Strategy Entry'',
                   description :=
                     Some ''A comprehensive business strategy for digital transformation'',
                   textContent := Some content, entryFee := 49, stripeFee := 2,
                   totalAmount := 51, paymentIntentId := ''pi_test_'' @ show_nat now,
                   paymentStatus := Succeeded\<rparr>) s of
               Inl err \<Rightarrow> (Json_error 500 ''Entry validation failed'', s)
             | Inr (entryId, s') \<Rightarrow> (Test_entry_created entryId, s')))"

text \<open>
  The webhook. Here \<^verbatim>\<open>express.raw\<close> is mounted on the path of the webhook before
  \<^verbatim>\<open>express.json\<close> (limit \<^verbatim>\<open>10mb\<close>), so that a JSON delivery reaches the handler as the
  bytes that were sent. The handler answers 500 when Stripe or the secret is missing,
  before it verifies anything, and awaits the update.
\<close>

definition webhook_body_v2 :: "delivery \<Rightarrow> thrown + req_body" where
  "webhook_body_v2 d =
     (case express_raw d Not_read of
        Inl err \<Rightarrow> Inl err
      | Inr bytes \<Rightarrow> express_json (10 * 1024 * 1024) d bytes)"

definition webhook_v2 ::
  "gateway \<Rightarrow> env \<Rightarrow> nat \<Rightarrow> delivery \<Rightarrow> store \<Rightarrow> response \<times> store"
where
  "webhook_v2 stripe env now d s =
     (case webhook_body_v2 d of
        Inl err \<Rightarrow> (Json_error 500 ''Internal server error'', s)
      | Inr body \<Rightarrow>
          (case connect_middleware env of
             Some r \<Rightarrow> (r, s)
           | None \<Rightarrow>
               if \<not> stripeInitialized env \<or> falsy (webhookSecret env)
               then (Json_error 500 ''Webhook not configured'', s)
               else
                 (case constructEvent stripe body (stripe_signature d)
                         (the (webhookSecret env)) of
                    Inl err \<Rightarrow> (Text_error 400 ''Webhook Error'', s)
                  | Inr event \<Rightarrow>
                      if event_type event = ''payment_intent.payment_failed''
                      then (Received,
                            s\<lparr>docs := findOneAndUpdate_failed now (object_id event) (docs s)\<rparr>)
                      else (Received, s))))"

section \<open>Executions\<close>

text \<open>
  One step is one request that can write to the collection, with any arguments, in any
  environment and against any gateway and database library. The reachable stores are those
  that a sequence of steps produces from the empty collection. Each of the two servers has
  its own steps.
\<close>

inductive step :: "store \<Rightarrow> store \<Rightarrow> bool" where
  step_test_entry: "step s (snd (create_test_entry text env now uid s))"
| step_test_entries: "step s (snd (create_test_entries text env now uid s))"
| step_submit: "step s (snd (submit_entry stripe env now req s))"
| step_delete: "step s (snd (delete_entry db env param uid' s))"
| step_webhook: "step s (snd (webhook stripe env now d s))"

definition reachable :: "store \<Rightarrow> bool" where
  "reachable s = step\<^sup>*\<^sup>* empty_store s"

inductive step_v2 :: "store \<Rightarrow> store \<Rightarrow> bool" where
  step_v2_test_entry: "step_v2 s (snd (create_test_entry_v2 text env now uid s))"
| step_v2_submit: "step_v2 s (snd (submit_entry_v2 stripe env now req s))"
| step_v2_delete: "step_v2 s (snd (delete_entry_v2 db env param uid' s))"
| step_v2_webhook: "step_v2 s (snd (webhook_v2 stripe env now d s))"

definition reachable_v2 :: "store \<Rightarrow> bool" where
  "reachable_v2 s = step_v2\<^sup>*\<^sup>* empty_store s"

section \<open>Invariants of the collection\<close>

text \<open>
  What holds of a document when it is written: the total is the sum of the two fees, the
  payment status is \<open>succeeded\<close>, and inline file data comes with the type \<open>pitch-deck\<close>
  and the retrieval URL of the document's payment intent.
\<close>

definition new_entry_ok :: "entry \<Rightarrow> bool" where
  "new_entry_ok e =
     (totalAmount e = entryFee e + stripeFee e \<and> paymentStatus e = Succeeded \<and>
      (fileData e = None \<or>
       (entryType e = ''pitch-deck'' \<and>
        fileUrl e = Some (''/api/file/'' @ paymentIntentId e))))"

text \<open>
  What holds of every stored document: its identifier is below the next one, identifiers are
  distinct, the total is the sum of the two fees, and inline file data comes with the type
  \<open>pitch-deck\<close> and the retrieval URL.
\<close>

definition store_inv :: "store \<Rightarrow> bool" where
  "store_inv s =
     (distinct (map entry_id (docs s)) \<and>
      list_all (\<lambda>e. entry_id e < nextId s \<and>
          totalAmount e = entryFee e + stripeFee e \<and>
          (fileData e = None \<or>
           (entryType e = ''pitch-deck'' \<and>
            fileUrl e = Some (''/api/file/'' @ paymentIntentId e))))
        (docs s))"

text \<open>
  What a writing request does to the collection: it appends new documents with fresh
  identifiers (possibly none), or deletes the document of one identifier, or marks the
  first document of one payment intent as failed.
\<close>

definition appended :: "store \<Rightarrow> store \<Rightarrow> entry list \<Rightarrow> bool" where
  "appended s s' es =
     (docs s' = docs s @ es \<and> nextId s' = nextId s + length es \<and>
      map entry_id es = [nextId s..<nextId s + length es] \<and> list_all new_entry_ok es)"

inductive effect :: "store \<Rightarrow> store \<Rightarrow> bool" where
  effect_appended: "appended s s' es \<Longrightarrow> effect s s'"
| effect_deleted: "effect s (s\<lparr>docs := findByIdAndDelete entryId (docs s)\<rparr>)"
| effect_updated: "effect s (s\<lparr>docs := findOneAndUpdate_failed now pid (docs s)\<rparr>)"

section \<open>Example values\<close>

text \<open>
  The body of a webhook delivery for the examples: the JSON text of an event of type \<open>t\<close>
  about the payment intent \<open>pid\<close>.
\<close>

definition quoted :: "string \<Rightarrow> string" where
  "quoted v = CHR 0x22 # v @ [CHR 0x22]"

definition json_event :: "string \<Rightarrow> string \<Rightarrow> string" where
  "json_event t pid =
     concat [''{'', quoted ''type'', '':'', quoted t, '','', quoted ''data'', '':{'',
       quoted ''object'', '':{'', quoted ''id'', '':'', quoted pid, ''}}}'']"

text \<open>
  A gateway for the examples: it refuses an amount that is not a number, knows every
  intent but \<^verbatim>\<open>pi_missing\<close>, reports the status it is given with the metadata of a
  \<open>business\<close> entry, and verifies the signature \<^verbatim>\<open>valid\<close> on the bytes of two events about
  \<^verbatim>\<open>pi_1\<close>.
\<close>

definition example_gateway :: "string \<Rightarrow> gateway" where
  "example_gateway st =
     \<lparr>paymentIntents_create = (\<lambda>amount meta.
        case amount of
          None \<Rightarrow> Inl (Gateway_error ''Invalid integer: NaN'')
        | Some a \<Rightarrow>
            Inr \<lparr>intent_id = ''pi_1'', client_secret = ''pi_1_secret'',
                 intent_status = ''requires_payment_method'', metadata = meta\<rparr>),
      paymentIntents_retrieve = (\<lambda>pid.
        if pid = ''pi_missing'' then Inl (Gateway_error ''No such payment_intent'')
        else
          Inr \<lparr>intent_id = pid, client_secret = pid @ ''_secret'', intent_status = st,
               metadata = [(''category'', ''business''), (''entryType'', ''video''),
                           (''entryFee'', ''49''), (''stripeFee'', ''2'')]\<rparr>),
      webhooks_constructEvent = (\<lambda>bytes sig secret.
        if sig \<noteq> Some ''valid''
        then Inl (Gateway_error ''No signatures found matching the expected signature'')
        else
          (case find (\<lambda>t. bytes = json_event t ''pi_1'')
                  [''payment_intent.payment_failed'', ''payment_intent.succeeded''] of
             None \<Rightarrow> Inl (Gateway_error ''Unexpected token in JSON'')
           | Some t \<Rightarrow> Inr \<lparr>event_type = t, object_id = ''pi_1''\<rparr>))\<rparr>"

definition example_env :: env where
  "example_env =
     \<lparr>isVercelServerless = True, nodeEnvProduction = False, mongoConnected = True,
      stripeInitialized = True, webhookSecret = Some ''whsec_test'', frontendUrl = None\<rparr>"

text \<open>
  A database library for the examples: an identifier is a text of 24 hexadecimal digits,
  read as a number.
\<close>

definition example_db :: mongoose where
  "example_db =
     \<lparr>castObjectId = (\<lambda>param.
        if length param = 24 \<and> list_all (\<lambda>c. digit_value 16 c \<noteq> None) param
        then parse_digits 16 None param else None),
      ObjectId_isValid = (\<lambda>param.
        length param = 24 \<and> list_all (\<lambda>c. digit_value 16 c \<noteq> None) param)\<rparr>"

text \<open>A delivery of the event of type \<open>t\<close> about \<^verbatim>\<open>pi_1\<close>, as the gateway sends it.\<close>

definition example_delivery :: "string \<Rightarrow> string option \<Rightarrow> delivery" where
  "example_delivery t sig =
     \<lparr>origin = None, media_type = ''application/json'', payload = json_event t ''pi_1'',
      payload_is_json = True, stripe_signature = sig\<rparr>"

definition video_request :: "string \<Rightarrow> string \<Rightarrow> entry_request" where
  "video_request uid pid =
     \<lparr>req_userId = Some uid, req_category = Some ''business'', req_entryType = Some ''video'',
      req_title = Some ''Pitch video'', req_description = None, req_textContent = None,
      req_videoUrl = Some ''https://youtu.be/abc'', req_paymentIntentId = Some pid,
      req_file = None\<rparr>"

definition deck_request :: "upload_file option \<Rightarrow> entry_request" where
  "deck_request file =
     \<lparr>req_userId = Some ''user_1'', req_category = Some ''business'',
      req_entryType = Some ''pitch-deck'', req_title = Some ''Pitch deck'',
      req_description = None, req_textContent = None, req_videoUrl = None,
      req_paymentIntentId = Some ''pi_1'', req_file = file\<rparr>"

definition text_request :: "string option \<Rightarrow> entry_request" where
  "text_request body =
     \<lparr>req_userId = Some ''user_1'', req_category = Some ''business'',
      req_entryType = Some ''text'', req_title = Some ''Business plan'',
      req_description = None, req_textContent = body, req_videoUrl = None,
      req_paymentIntentId = Some ''pi_1'', req_file = None\<rparr>"

definition png_file :: upload_file where
  "png_file =
     \<lparr>originalname = ''deck.png'', mimetype = ''image/png'', file_size = 1024,
      buffer_base64 = ''iVBORw0KGgo=''\<rparr>"

text \<open>
  The store of the first server after the video entry of \<^verbatim>\<open>user_1\<close> for \<^verbatim>\<open>pi_1\<close> was
  submitted at time 1000.
\<close>

definition one_entry_store :: store where
  "one_entry_store =
     snd (submit_entry (example_gateway ''succeeded'') example_env 1000
            (video_request ''user_1'' ''pi_1'') empty_store)"

text \<open>
  The store after the gateway has also sent the notification that this payment failed,
  and the store after the same request was then submitted once more at time 2000.
\<close>

definition notified_store :: store where
  "notified_store =
     snd (webhook (example_gateway ''succeeded'') example_env 1500
            (example_delivery ''payment_intent.payment_failed'' (Some ''valid''))
            one_entry_store)"

definition resubmitted_store :: store where
  "resubmitted_store =
     snd (submit_entry (example_gateway ''succeeded'') example_env 2000
            (video_request ''user_1'' ''pi_1'') notified_store)"

definition pdf_file :: upload_file where
  "pdf_file =
     \<lparr>originalname = ''deck.pdf'', mimetype = ''application/pdf'', file_size = 2048,
      buffer_base64 = ''JVBERi0xLjQ=''\<rparr>"

text \<open>
  The store after \<^verbatim>\<open>user_2\<close> submitted a video entry at time 2500 and \<^verbatim>\<open>user_1\<close> a pitch
  deck at time 3000.
\<close>

definition deck_store :: store where
  "deck_store =
     snd (submit_entry (example_gateway ''succeeded'') example_env 3000
            (deck_request (Some pdf_file))
            (snd (submit_entry (example_gateway ''succeeded'') example_env 2500
                    (video_request ''user_2'' ''pi_2'') resubmitted_store)))"

text \<open>
  The same three requests to the second server: the submission at time 1000, the
  notification that the payment failed, and the second submission at time 2000.
\<close>

definition one_entry_store_v2 :: store where
  "one_entry_store_v2 =
     snd (submit_entry_v2 (example_gateway ''succeeded'') example_env 1000
            (video_request ''user_1'' ''pi_1'') empty_store)"

definition failed_store_v2 :: store where
  "failed_store_v2 =
     snd (webhook_v2 (example_gateway ''succeeded'') example_env 1500
            (example_delivery ''payment_intent.payment_failed'' (Some ''valid''))
            one_entry_store_v2)"

definition resubmitted_store_v2 :: store where
  "resubmitted_store_v2 =
     snd (submit_entry_v2 (example_gateway ''succeeded'') example_env 2000
            (video_request ''user_1'' ''pi_1'') failed_store_v2)"

section \<open>Word counting\<close>

lemma split_ws_from_count:
  "(insep \<longrightarrow> acc = []) \<Longrightarrow>
   length (filter (\<lambda>word. length word > 0) (split_ws_from insep acc s)) =
     token_count_from (acc \<noteq> []) s + (if acc \<noteq> [] then 1 else 0)"
proof (induction s arbitrary: insep acc)
  case Nil
  show ?case by simp
next
  case (Cons c cs)
  show ?case
  proof (cases "is_space c")
    case True
    have sep: "length (filter (\<lambda>word. length word > 0) (split_ws_from True [] cs)) =
        token_count_from False cs"
      using Cons.IH [of True "[]"] by simp
    show ?thesis using True Cons.prems sep by simp
  next
    case False
    have tok: "length (filter (\<lambda>word. length word > 0) (split_ws_from False (c # acc) cs)) =
        token_count_from True cs + 1"
      using Cons.IH [of False "c # acc"] by simp
    show ?thesis using False tok by simp
  qed
qed

lemma wordCount_spec: "wordCount v = spec_word_count v"
proof (cases v)
  case None
  then show ?thesis by (simp add: wordCount_def spec_word_count_def truthy_def)
next
  case (Some s)
  have "length (filter (\<lambda>word. length word > 0) (split_ws_from False [] s)) =
      token_count_from False s"
    using split_ws_from_count [of False "[]" s] by simp
  then show ?thesis
    using Some by (cases s) (simp_all add: wordCount_def spec_word_count_def truthy_def split_ws_def)
qed

lemma token_count_word:
  "token_count_from False (''word '' @ s) = Suc (token_count_from False s)"
  by (simp add: is_space_def)

lemma spec_word_count_words_body: "spec_word_count (Some (words_body n)) = n"
  by (induction n) (simp_all add: spec_word_count_def words_body_def token_count_word
      del: append.simps)

text \<open>
  The validator counts the white-space delimited tokens of the body, empty tokens excluded,
  and accepts exactly when the count is between 100 and 2000.
\<close>

lemma textContent_validator_bounds:
  "textContent_validator ''text'' v = (100 \<le> spec_word_count v \<and> spec_word_count v \<le> 2000)"
  by (simp add: textContent_validator_def wordCount_spec Let_def)

section \<open>Evaluating the examples\<close>

lemmas example_defs =
  example_gateway_def example_env_def video_request_def deck_request_def png_file_def
  example_delivery_def

lemmas handler_defs =
  submit_entry_def upload_def checkMongoDBConnection_def checkStripeInitialized_def
  submit_handler_def pitch_deck_check_def falsy_def truthy_def

lemmas parse_defs = parseInt_def digit_value_def is_space_def

lemmas schema_defs =
  save_def entryData_def blank_entry_def schema_valid_def doValidate_def
  textContent_validator_def
  fileData_validator_def fileUrl_validator_def videoUrl_validator_def urlPattern_test_def
  starts_with_def to_lower_def

lemma one_entry_store_eq:
  "one_entry_store =
     \<lparr>docs =
        [\<lparr>entry_id = 0, userId = ''user_1'', category = ''business'',
           entryType = ''video'', title = ''Pitch video'',
           description = None, textContent = None, fileData = None,
           fileName = None, fileType = None, fileSize = None,
           fileUrl = None, videoUrl = Some ''https://youtu.be/abc'',
           entryFee = 49, stripeFee = 2, totalAmount = 51,
           paymentIntentId = ''pi_1'', paymentStatus = Succeeded,
           submissionDate = 1000, status = Submitted, createdAt = 1000,
           updatedAt = 1000\<rparr>],
      nextId = Suc 0\<rparr>"
  by (simp add: one_entry_store_def handler_defs example_defs parse_defs schema_defs
      empty_store_def Let_def)

section \<open>Fees\<close>

lemma calculateFees_49: "calculateFees 49 = (2, 51)"
  by (simp add: calculateFees_def Math_ceil_def times_0_04_def round_to_double_def
      double_0_04_def bit_length.simps Let_def)

lemma calculateFees_99: "calculateFees 99 = (4, 103)"
  by (simp add: calculateFees_def Math_ceil_def times_0_04_def round_to_double_def
      double_0_04_def bit_length.simps Let_def)

lemma spec_surcharge_49: "spec_surcharge 49 = 2"
  by (simp add: spec_surcharge_def) linarith

lemma spec_surcharge_99: "spec_surcharge 99 = 4"
  by (simp add: spec_surcharge_def) linarith

text \<open>
  For every category of the table the calculator returns the surcharge
  \<open>ceil(entryFee \<times> 0.04)\<close> and the total \<open>entryFee + surcharge\<close>.
\<close>

lemma calculateFees_table:
  assumes "map_of fee_table c = Some fee"
  shows "calculateFees fee = (spec_surcharge fee, fee + spec_surcharge fee)"
proof -
  have "fee = 49 \<or> fee = 99"
    using assms by (auto simp: fee_table_def split: if_splits)
  then show ?thesis
    by (auto simp: calculateFees_49 calculateFees_99 spec_surcharge_49 spec_surcharge_99)
qed

text \<open>
  With a category of the table and an entry type, an initialised server asks the gateway
  for an intent over the total in cents and answers with the three amounts.
\<close>

lemma create_payment_intent_table:
  assumes "stripeInitialized env" and "map_of fee_table c = Some fee" and "etype \<noteq> []"
  shows "create_payment_intent stripe env \<lparr>pr_category = Some c, pr_entryType = Some etype\<rparr> =
     (case paymentIntents_create stripe (Some ((fee + spec_surcharge fee) * 100))
         [(''category'', c), (''entryType'', etype), (''entryFee'', show_nat fee),
          (''stripeFee'', show_nat (spec_surcharge fee))] of
        Inl err \<Rightarrow> Json_error 500 ''Failed to create payment intent''
      | Inr paymentIntent \<Rightarrow>
          Intent_created (client_secret paymentIntent)
            (Fees fee (spec_surcharge fee) (fee + spec_surcharge fee)))"
proof -
  have c: "c \<noteq> []" and fee: "fee \<noteq> 0"
    using assms(2) by (auto simp: fee_table_def split: if_splits)
  show ?thesis
    using assms c fee calculateFees_table [OF assms(2)]
    by (simp add: create_payment_intent_def checkStripeInitialized_def falsy_def baseFees_def
        Let_def)
qed

text \<open>
  A category that is neither in the table nor a key of \<^verbatim>\<open>Object.prototype\<close> is answered
  with 400, whatever the gateway is: no intent is asked for.
\<close>

lemma create_payment_intent_unknown:
  assumes "stripeInitialized env" and "map_of fee_table c = None"
    and "c \<notin> set object_prototype_keys" and "c \<noteq> []" and "etype \<noteq> []"
  shows "create_payment_intent stripe env \<lparr>pr_category = Some c, pr_entryType = Some etype\<rparr> =
     Json_error 400 ''Invalid category''"
  using assms
  by (simp add: create_payment_intent_def checkStripeInitialized_def falsy_def baseFees_def
      Let_def)

text \<open>
  C3. The fees of the table are as claimed (\<open>calculateFees_table\<close>, 49 gives 2 and 51, 99
  gives 4 and 103), but a category outside the table is not always answered with the
  invalid-category error: for the category \<^verbatim>\<open>constructor\<close> the lookup
  \<^verbatim>\<open>baseFees[category]\<close> finds the inherited function, the check \<^verbatim>\<open>!entryFee\<close> passes,
  and the handler asks the gateway for an intent with the amount \<^verbatim>\<open>NaN\<close>; the answer is
  500 or, if the gateway creates the intent, 200.
\<close>

theorem create_payment_intent_constructor:
  "create_payment_intent stripe (env\<lparr>stripeInitialized := True\<rparr>)
       \<lparr>pr_category = Some ''constructor'', pr_entryType = Some ''text''\<rparr> =
     (case paymentIntents_create stripe None
         [(''category'', ''constructor''), (''entryType'', ''text''),
          (''entryFee'', ''function Object() { [native code] }''), (''stripeFee'', ''NaN'')] of
        Inl err \<Rightarrow> Json_error 500 ''Failed to create payment intent''
      | Inr paymentIntent \<Rightarrow> Intent_created (client_secret paymentIntent) Fees_not_numbers) \<and>
   create_payment_intent stripe (env\<lparr>stripeInitialized := True\<rparr>)
       \<lparr>pr_category = Some ''constructor'', pr_entryType = Some ''text''\<rparr> \<noteq>
     Json_error 400 ''Invalid category''"
  by (simp add: create_payment_intent_def checkStripeInitialized_def falsy_def baseFees_def
      fee_table_def object_prototype_keys_def inherited_toString_def Let_def
      split: sum.split)

theorem create_payment_intent_constructor_witness:
  "map_of fee_table ''constructor'' = None \<and>
   create_payment_intent (example_gateway ''succeeded'') example_env
       \<lparr>pr_category = Some ''constructor'', pr_entryType = Some ''text''\<rparr> =
     Json_error 500 ''Failed to create payment intent'' \<and>
   create_payment_intent (example_gateway ''succeeded'') example_env
       \<lparr>pr_category = Some ''business'', pr_entryType = Some ''text''\<rparr> =
     Intent_created ''pi_1_secret'' (Fees 49 2 51) \<and>
   create_payment_intent (example_gateway ''succeeded'') example_env
       \<lparr>pr_category = Some ''technology'', pr_entryType = Some ''text''\<rparr> =
     Intent_created ''pi_1_secret'' (Fees 99 4 103) \<and>
   create_payment_intent (example_gateway ''succeeded'') example_env
       \<lparr>pr_category = Some ''sports'', pr_entryType = Some ''text''\<rparr> =
     Json_error 400 ''Invalid category''"
proof -
  have env: "example_env\<lparr>stripeInitialized := True\<rparr> = example_env"
    by (simp add: example_env_def)
  have a: "create_payment_intent (example_gateway ''succeeded'') example_env
       \<lparr>pr_category = Some ''constructor'', pr_entryType = Some ''text''\<rparr> =
     Json_error 500 ''Failed to create payment intent''"
    using create_payment_intent_constructor [of "example_gateway ''succeeded''" example_env]
    by (simp add: env) (simp add: example_gateway_def)
  have i: "stripeInitialized example_env"
    by (simp add: example_env_def)
  have b: "create_payment_intent (example_gateway ''succeeded'') example_env
       \<lparr>pr_category = Some ''business'', pr_entryType = Some ''text''\<rparr> =
     Intent_created ''pi_1_secret'' (Fees 49 2 51)"
    using create_payment_intent_table [OF i, of "''business''" 49 "''text''"]
    by (simp add: fee_table_def spec_surcharge_49 example_gateway_def)
  have c: "create_payment_intent (example_gateway ''succeeded'') example_env
       \<lparr>pr_category = Some ''technology'', pr_entryType = Some ''text''\<rparr> =
     Intent_created ''pi_1_secret'' (Fees 99 4 103)"
    using create_payment_intent_table [OF i, of "''technology''" 99 "''text''"]
    by (simp add: fee_table_def spec_surcharge_99 example_gateway_def)
  have d: "create_payment_intent (example_gateway ''succeeded'') example_env
       \<lparr>pr_category = Some ''sports'', pr_entryType = Some ''text''\<rparr> =
     Json_error 400 ''Invalid category''"
    using create_payment_intent_unknown [OF i, of "''sports''" "''text''"]
    by (simp add: fee_table_def object_prototype_keys_def)
  show ?thesis
    using a b c d by (simp add: fee_table_def)
qed

section \<open>Submission\<close>

lemma falsy_truthy: "falsy v = (\<not> truthy v)"
  by (cases v) (simp_all add: falsy_def truthy_def)

lemma pitch_deck_check_error:
  "pitch_deck_check env req = Some r \<Longrightarrow> \<exists>message. r = Json_error 400 message"
  by (auto simp: pitch_deck_check_def split: if_splits option.splits)

text \<open>
  Every submission is either answered with an error and writes nothing, or is answered with
  201 after the gateway has reported the intent as succeeded, and appends the document built
  from the request and the fees of the intent's metadata.
\<close>

lemma submit_handler_cases:
  "(\<exists>code message. submit_handler stripe env now req s = (Json_error code message, s)) \<or>
   (\<exists>paymentIntent fee surcharge.
      paymentIntents_retrieve stripe (the (req_paymentIntentId req)) = Inr paymentIntent \<and>
      intent_status paymentIntent = ''succeeded'' \<and>
      parseInt (map_of (metadata paymentIntent) ''entryFee'') = Some fee \<and>
      parseInt (map_of (metadata paymentIntent) ''stripeFee'') = Some surcharge \<and>
      submit_handler stripe env now req s =
        (Entry_submitted (nextId s),
         \<lparr>docs = docs s @ [(entryData req fee surcharge)
              \<lparr>entry_id := nextId s, submissionDate := now, createdAt := now, updatedAt := now\<rparr>],
          nextId = Suc (nextId s)\<rparr>))"
proof (cases "falsy (req_userId req) \<or> falsy (req_category req) \<or>
    falsy (req_entryType req) \<or> falsy (req_title req) \<or> falsy (req_paymentIntentId req)")
  case True
  then show ?thesis by (simp add: submit_handler_def)
next
  case fields: False
  show ?thesis
  proof (cases "pitch_deck_check env req")
    case (Some r)
    then show ?thesis
      using fields pitch_deck_check_error [OF Some] by (auto simp: submit_handler_def)
  next
    case None
    show ?thesis
    proof (cases "paymentIntents_retrieve stripe (the (req_paymentIntentId req))")
      case (Inl err)
      then show ?thesis using fields None by (simp add: submit_handler_def)
    next
      case (Inr paymentIntent)
      then show ?thesis
        using fields None
        by (simp add: submit_handler_def save_def Let_def split: option.split)
    qed
  qed
qed

lemma submit_entry_cases:
  "(\<exists>code message. submit_entry stripe env now req s = (Json_error code message, s)) \<or>
   (\<exists>paymentIntent fee surcharge.
      paymentIntents_retrieve stripe (the (req_paymentIntentId req)) = Inr paymentIntent \<and>
      intent_status paymentIntent = ''succeeded'' \<and>
      parseInt (map_of (metadata paymentIntent) ''entryFee'') = Some fee \<and>
      parseInt (map_of (metadata paymentIntent) ''stripeFee'') = Some surcharge \<and>
      submit_entry stripe env now req s =
        (Entry_submitted (nextId s),
         \<lparr>docs = docs s @ [(entryData req fee surcharge)
              \<lparr>entry_id := nextId s, submissionDate := now, createdAt := now, updatedAt := now\<rparr>],
          nextId = Suc (nextId s)\<rparr>))"
proof (cases "upload env req = None \<and> mongoConnected env \<and> stripeInitialized env")
  case True
  then have "submit_entry stripe env now req s = submit_handler stripe env now req s"
    by (simp add: submit_entry_def checkMongoDBConnection_def checkStripeInitialized_def)
  then show ?thesis
    using submit_handler_cases [of stripe env now req s] by simp
next
  case False
  then have "\<exists>code message. submit_entry stripe env now req s = (Json_error code message, s)"
    by (auto simp: submit_entry_def upload_def checkMongoDBConnection_def
        checkStripeInitialized_def split: option.splits)
  then show ?thesis by blast
qed

text \<open>The request gets as far as the retrieval of the payment intent.\<close>

lemma submit_entry_reaches:
  assumes "reaches_retrieval env req"
  shows "submit_entry stripe env now req s =
     (case paymentIntents_retrieve stripe (the (req_paymentIntentId req)) of
        Inl err \<Rightarrow> (Json_error 500 ''Failed to submit entry'', s)
      | Inr paymentIntent \<Rightarrow>
          if intent_status paymentIntent \<noteq> ''succeeded''
          then (Json_error 400 ''Payment not completed'', s)
          else
            (case (parseInt (map_of (metadata paymentIntent) ''entryFee''),
                   parseInt (map_of (metadata paymentIntent) ''stripeFee'')) of
               (Some fee, Some surcharge) \<Rightarrow>
                 (case save now (entryData req fee surcharge) s of
                    Inl err \<Rightarrow> (Json_error 500 ''Failed to submit entry'', s)
                  | Inr (entryId, s') \<Rightarrow> (Entry_submitted entryId, s'))
             | _ \<Rightarrow> (Json_error 500 ''Failed to submit entry'', s)))"
  using assms
  by (simp add: reaches_retrieval_def submit_entry_def submit_handler_def
      checkMongoDBConnection_def checkStripeInitialized_def falsy_truthy)

lemma reaches_retrieval_video:
  "pid \<noteq> [] \<Longrightarrow> uid \<noteq> [] \<Longrightarrow> reaches_retrieval example_env (video_request uid pid)"
  by (simp add: reaches_retrieval_def example_defs upload_def pitch_deck_check_def truthy_def)

text \<open>
  C1, as amended. When the request reaches the retrieval of the payment intent: an intent
  whose status is not \<open>succeeded\<close> is answered with 400 \<open>Payment not completed\<close>; a retrieval
  that throws is answered with 500 \<open>Failed to submit entry\<close>; in both cases the store is
  unchanged, so no entry is persisted.
\<close>

theorem submit_payment_not_verified:
  assumes "reaches_retrieval env req"
  shows "(\<forall>paymentIntent.
            paymentIntents_retrieve stripe (the (req_paymentIntentId req)) = Inr paymentIntent \<and>
            intent_status paymentIntent \<noteq> ''succeeded'' \<longrightarrow>
            submit_entry stripe env now req s = (Json_error 400 ''Payment not completed'', s)) \<and>
         (\<forall>err.
            paymentIntents_retrieve stripe (the (req_paymentIntentId req)) = Inl err \<longrightarrow>
            submit_entry stripe env now req s = (Json_error 500 ''Failed to submit entry'', s))"
  using submit_entry_reaches [OF assms, of stripe now s] by auto

theorem submit_payment_not_verified_witness:
  "reaches_retrieval example_env (video_request ''user_1'' ''pi_1'') \<and>
   intent_status (projr (paymentIntents_retrieve (example_gateway ''requires_payment_method'')
     ''pi_1'')) = ''requires_payment_method'' \<and>
   submit_entry (example_gateway ''requires_payment_method'') example_env 1000
       (video_request ''user_1'' ''pi_1'') empty_store =
     (Json_error 400 ''Payment not completed'', empty_store) \<and>
   reaches_retrieval example_env (video_request ''user_1'' ''pi_missing'') \<and>
   submit_entry (example_gateway ''requires_payment_method'') example_env 1000
       (video_request ''user_1'' ''pi_missing'') empty_store =
     (Json_error 500 ''Failed to submit entry'', empty_store)"
proof -
  have r: "reaches_retrieval example_env (video_request ''user_1'' ''pi_1'')"
    by (simp add: reaches_retrieval_video)
  have g: "paymentIntents_retrieve (example_gateway ''requires_payment_method'')
        (the (req_paymentIntentId (video_request ''user_1'' ''pi_1''))) =
      Inr \<lparr>intent_id = ''pi_1'', client_secret = ''pi_1_secret'',
           intent_status = ''requires_payment_method'',
           metadata = [(''category'', ''business''), (''entryType'', ''video''),
                       (''entryFee'', ''49''), (''stripeFee'', ''2'')]\<rparr>"
    by (simp add: example_defs)
  have a: "submit_entry (example_gateway ''requires_payment_method'') example_env 1000
       (video_request ''user_1'' ''pi_1'') empty_store =
     (Json_error 400 ''Payment not completed'', empty_store)"
    using submit_payment_not_verified [OF r, of "example_gateway ''requires_payment_method''"
        1000 empty_store] g
    by simp
  have r': "reaches_retrieval example_env (video_request ''user_1'' ''pi_missing'')"
    by (simp add: reaches_retrieval_video)
  have g': "paymentIntents_retrieve (example_gateway ''requires_payment_method'')
        (the (req_paymentIntentId (video_request ''user_1'' ''pi_missing''))) =
      Inl (Gateway_error ''No such payment_intent'')"
    by (simp add: example_defs)
  have b: "submit_entry (example_gateway ''requires_payment_method'') example_env 1000
       (video_request ''user_1'' ''pi_missing'') empty_store =
     (Json_error 500 ''Failed to submit entry'', empty_store)"
    using submit_payment_not_verified [OF r', of "example_gateway ''requires_payment_method''"
        1000 empty_store] g'
    by simp
  have st: "intent_status (projr (paymentIntents_retrieve
      (example_gateway ''requires_payment_method'') ''pi_1'')) = ''requires_payment_method''"
    by (simp add: example_gateway_def)
  show ?thesis
    using r st a r' b by (intro conjI)
qed

text \<open>
  The claim as stated fails when the retrieval throws: the request below reaches the
  retrieval, the gateway does not know the intent, and the answer is 500
  \<open>Failed to submit entry\<close>, not the 400 of an incomplete payment.
\<close>

theorem submit_gateway_error_counterexample:
  "reaches_retrieval example_env (video_request ''user_1'' ''pi_missing'') \<and>
   paymentIntents_retrieve (example_gateway ''succeeded'') ''pi_missing'' =
     Inl (Gateway_error ''No such payment_intent'') \<and>
   submit_entry (example_gateway ''succeeded'') example_env 1000
       (video_request ''user_1'' ''pi_missing'') empty_store =
     (Json_error 500 ''Failed to submit entry'', empty_store) \<and>
   fst (submit_entry (example_gateway ''succeeded'') example_env 1000
       (video_request ''user_1'' ''pi_missing'') empty_store) \<noteq>
     Json_error 400 ''Payment not completed''"
proof -
  have r: "reaches_retrieval example_env (video_request ''user_1'' ''pi_missing'')"
    by (simp add: reaches_retrieval_video)
  have g: "paymentIntents_retrieve (example_gateway ''succeeded'') ''pi_missing'' =
      Inl (Gateway_error ''No such payment_intent'')"
    by (simp add: example_gateway_def)
  have p: "the (req_paymentIntentId (video_request ''user_1'' ''pi_missing'')) = ''pi_missing''"
    by (simp add: video_request_def)
  show ?thesis
    using r g by (simp add: submit_entry_reaches [OF r] p)
qed

section \<open>Text entries\<close>

lemma reaches_retrieval_text: "reaches_retrieval example_env (text_request body)"
  by (simp add: reaches_retrieval_def example_env_def text_request_def upload_def
      pitch_deck_check_def truthy_def)

text \<open>
  C5. A submission of type \<open>text\<close> that is paid for and valid in its other fields is stored
  exactly when its body is absent or has between 100 and 2000 white-space delimited tokens
  (empty tokens not counted); otherwise validation refuses it and the answer is 500. So
  bodies of 99 and of 2001 words are rejected and bodies of 100 and of 2000 words are
  accepted, as claimed; but a \<open>text\<close> entry with no body at all, which has no word, is
  accepted and stored with 201: the validator is declared on \<^verbatim>\<open>textContent\<close>, the field is
  not required, and a declared validator is not run on an undefined value.
\<close>

theorem text_entry_word_count:
  assumes "reaches_retrieval env req" and "req_entryType req = Some ''text''"
    and "paymentIntents_retrieve stripe (the (req_paymentIntentId req)) = Inr paymentIntent"
    and "intent_status paymentIntent = ''succeeded''"
    and "parseInt (map_of (metadata paymentIntent) ''entryFee'') = Some fee"
    and "parseInt (map_of (metadata paymentIntent) ''stripeFee'') = Some surcharge"
    and "the (req_category req) \<in>
      set [''business'', ''creative'', ''technology'', ''social-impact'']"
    and "5 \<le> length (the (req_title req))" and "length (the (req_title req)) \<le> 100"
    and "case req_description req of None \<Rightarrow> True | Some d \<Rightarrow> length d \<le> 1000"
  shows "wordCount (req_textContent req) = spec_word_count (req_textContent req) \<and>
     submit_entry stripe env now req s =
       (if req_textContent req = None \<or>
           (100 \<le> spec_word_count (req_textContent req) \<and>
            spec_word_count (req_textContent req) \<le> 2000)
        then (Entry_submitted (nextId s),
              \<lparr>docs = docs s @ [(entryData req fee surcharge)
                   \<lparr>entry_id := nextId s, submissionDate := now, createdAt := now, updatedAt := now\<rparr>],
               nextId = Suc (nextId s)\<rparr>)
        else (Json_error 500 ''Failed to submit entry'', s))"
proof -
  let ?d = "entryData req fee surcharge"
  let ?e = "?d\<lparr>entry_id := nextId s, submissionDate := now, createdAt := now, updatedAt := now\<rparr>"
  have fields: "userId ?d \<noteq> []" "title ?d = the (req_title req)"
    "category ?d = the (req_category req)" "entryType ?d = ''text''"
    "description ?d = req_description req" "paymentIntentId ?d \<noteq> []"
    "textContent ?d = req_textContent req" "fileData ?d = None" "fileUrl ?d = None"
    "videoUrl ?d = None"
    using assms(1,2)
    by (auto simp: reaches_retrieval_def truthy_def entryData_def blank_entry_def Let_def
        split: option.splits)
  have title: "the (req_title req) \<noteq> []"
    using assms(8) by auto
  have valid: "schema_valid ?e =
      (req_textContent req = None \<or>
       (100 \<le> spec_word_count (req_textContent req) \<and>
        spec_word_count (req_textContent req) \<le> 2000))"
  proof (cases "req_textContent req")
    case None
    then show ?thesis
      using assms(7-10) title by (simp add: schema_valid_def doValidate_def fields)
  next
    case (Some body)
    then show ?thesis
      using assms(7-10) title textContent_validator_bounds [of "Some body"]
      by (simp add: schema_valid_def doValidate_def fields)
  qed
  have "submit_entry stripe env now req s =
      (case save now (entryData req fee surcharge) s of
         Inl err \<Rightarrow> (Json_error 500 ''Failed to submit entry'', s)
       | Inr (entryId, s') \<Rightarrow> (Entry_submitted entryId, s'))"
    using submit_entry_reaches [OF assms(1), of stripe now s] assms(3-6) by simp
  then have "submit_entry stripe env now req s =
      (if schema_valid ?e
       then (Entry_submitted (nextId s),
             \<lparr>docs = docs s @ [?e], nextId = Suc (nextId s)\<rparr>)
       else (Json_error 500 ''Failed to submit entry'', s))"
    by (simp add: save_def Let_def)
  then show ?thesis
    by (simp only: valid wordCount_spec)
qed

theorem text_entry_word_count_witness:
  "fst (submit_entry (example_gateway ''succeeded'') example_env 1000
     (text_request (Some (words_body 99))) empty_store) =
     Json_error 500 ''Failed to submit entry'' \<and>
   fst (submit_entry (example_gateway ''succeeded'') example_env 1000
     (text_request (Some (words_body 100))) empty_store) = Entry_submitted 0 \<and>
   fst (submit_entry (example_gateway ''succeeded'') example_env 1000
     (text_request (Some (words_body 2000))) empty_store) = Entry_submitted 0 \<and>
   fst (submit_entry (example_gateway ''succeeded'') example_env 1000
     (text_request (Some (words_body 2001))) empty_store) =
     Json_error 500 ''Failed to submit entry'' \<and>
   wordCount (Some ''  two   words '') = 2 \<and>
   fst (submit_entry (example_gateway ''succeeded'') example_env 1000
     (text_request None) empty_store) = Entry_submitted 0 \<and>
   map entryType (docs (snd (submit_entry (example_gateway ''succeeded'') example_env 1000
     (text_request None) empty_store))) = [''text''] \<and>
   map textContent (docs (snd (submit_entry (example_gateway ''succeeded'') example_env 1000
     (text_request None) empty_store))) = [None] \<and>
   spec_word_count None = 0"
proof -
  have g: "paymentIntents_retrieve (example_gateway ''succeeded'')
        (the (req_paymentIntentId (text_request body))) =
      Inr \<lparr>intent_id = ''pi_1'', client_secret = ''pi_1_secret'',
           intent_status = ''succeeded'',
           metadata = [(''category'', ''business''), (''entryType'', ''video''),
                       (''entryFee'', ''49''), (''stripeFee'', ''2'')]\<rparr>" for body
    by (simp add: example_gateway_def text_request_def)
  have fee: "parseInt (Some ''49'') = Some 49"
    and surcharge: "parseInt (Some ''2'') = Some 2"
    by (simp_all add: parse_defs)
  have t: "wordCount (req_textContent (text_request body)) =
        spec_word_count (req_textContent (text_request body)) \<and>
      submit_entry (example_gateway ''succeeded'') example_env 1000 (text_request body)
          empty_store =
        (if req_textContent (text_request body) = None \<or>
            (100 \<le> spec_word_count (req_textContent (text_request body)) \<and>
             spec_word_count (req_textContent (text_request body)) \<le> 2000)
         then (Entry_submitted (nextId empty_store),
               \<lparr>docs = docs empty_store @ [(entryData (text_request body) 49 2)
                    \<lparr>entry_id := nextId empty_store, submissionDate := 1000,
                      createdAt := 1000, updatedAt := 1000\<rparr>],
                nextId = Suc (nextId empty_store)\<rparr>)
         else (Json_error 500 ''Failed to submit entry'', empty_store))" for body
    by (rule text_entry_word_count [OF reaches_retrieval_text _ g _ _ _])
      (simp_all add: text_request_def fee surcharge)
  have b: "req_textContent (text_request body) = body" for body
    by (simp add: text_request_def)
  have a99: "fst (submit_entry (example_gateway ''succeeded'') example_env 1000
     (text_request (Some (words_body 99))) empty_store) =
     Json_error 500 ''Failed to submit entry''"
    using t [of "Some (words_body 99)"] by (simp add: b spec_word_count_words_body)
  have a100: "fst (submit_entry (example_gateway ''succeeded'') example_env 1000
     (text_request (Some (words_body 100))) empty_store) = Entry_submitted 0"
    using t [of "Some (words_body 100)"]
    by (simp add: b spec_word_count_words_body empty_store_def)
  have a2000: "fst (submit_entry (example_gateway ''succeeded'') example_env 1000
     (text_request (Some (words_body 2000))) empty_store) = Entry_submitted 0"
    using t [of "Some (words_body 2000)"]
    by (simp add: b spec_word_count_words_body empty_store_def)
  have a2001: "fst (submit_entry (example_gateway ''succeeded'') example_env 1000
     (text_request (Some (words_body 2001))) empty_store) =
     Json_error 500 ''Failed to submit entry''"
    using t [of "Some (words_body 2001)"] by (simp add: b spec_word_count_words_body)
  have two: "wordCount (Some ''  two   words '') = 2"
    using t [of "Some ''  two   words ''"] by (simp add: b spec_word_count_def is_space_def)
  have none: "submit_entry (example_gateway ''succeeded'') example_env 1000
       (text_request None) empty_store =
     (Entry_submitted 0,
      \<lparr>docs = [(entryData (text_request None) 49 2)
           \<lparr>entry_id := 0, submissionDate := 1000, createdAt := 1000, updatedAt := 1000\<rparr>],
       nextId = Suc 0\<rparr>)"
    using t [of None] by (simp add: b empty_store_def)
  have d: "entryType (entryData (text_request None) 49 2) = ''text''"
    "textContent (entryData (text_request None) 49 2) = None"
    by (simp_all add: entryData_def text_request_def blank_entry_def Let_def)
  have z: "spec_word_count None = 0"
    by (simp add: spec_word_count_def)
  show ?thesis
    using a99 a100 a2000 a2001 two z by (simp add: none d)
qed

lemma upload_png:
  "req_file req = Some file \<Longrightarrow> mimetype file = ''image/png'' \<Longrightarrow>
   upload env req =
     Some (Json_error 400 ''Invalid file type. Only PDF and PPT files are allowed.'')"
  by (simp add: upload_def fileFilter_def allowed_mime_types_def object_prototype_keys_def)

lemma submit_entry_middleware:
  "(\<exists>message. submit_entry stripe env now req s = (Json_error 400 message, s)) \<or>
   (\<exists>message. submit_entry stripe env now req s = (Json_error 503 message, s) \<and>
      \<not> (mongoConnected env \<and> stripeInitialized env)) \<or>
   submit_entry stripe env now req s = submit_handler stripe env now req s"
  by (auto simp: submit_entry_def upload_def checkMongoDBConnection_def
      checkStripeInitialized_def split: option.splits)

lemma submit_handler_pitch_deck:
  assumes "req_entryType req = Some ''pitch-deck''"
    and "req_file req = None \<or>
     (\<exists>file. req_file req = Some file \<and> mimetype file \<notin> set allowed_mime_types)"
  shows "\<exists>message. submit_handler stripe env now req s = (Json_error 400 message, s)"
proof (cases "falsy (req_userId req) \<or> falsy (req_category req) \<or>
    falsy (req_entryType req) \<or> falsy (req_title req) \<or> falsy (req_paymentIntentId req)")
  case True
  then show ?thesis by (simp add: submit_handler_def)
next
  case False
  have "\<exists>message. pitch_deck_check env req = Some (Json_error 400 message)"
    using assms by (auto simp: pitch_deck_check_def)
  then show ?thesis using False by (auto simp: submit_handler_def)
qed

text \<open>
  C6. A \<open>pitch-deck\<close> submission with no file, or with a file whose declared type is not one
  of the three allowed types, is answered with an error and writes nothing; the error is a
  400 whenever the database and the gateway are available (otherwise the availability
  check answers 503 first). A file declared \<^verbatim>\<open>image/png\<close> is refused with 400 by the
  upload filter, whatever its size, the entry type and the environment.
\<close>

theorem pitch_deck_rejected:
  "(req_entryType req = Some ''pitch-deck'' \<and>
    (req_file req = None \<or>
     (\<exists>file. req_file req = Some file \<and> mimetype file \<notin> set allowed_mime_types)) \<longrightarrow>
      snd (submit_entry stripe env now req s) = s \<and>
      (\<exists>message. fst (submit_entry stripe env now req s) = Json_error 400 message \<or>
         fst (submit_entry stripe env now req s) = Json_error 503 message) \<and>
      (mongoConnected env \<and> stripeInitialized env \<longrightarrow>
         (\<exists>message. fst (submit_entry stripe env now req s) = Json_error 400 message))) \<and>
   (\<forall>file. req_file req = Some file \<and> mimetype file = ''image/png'' \<longrightarrow>
      submit_entry stripe env now req s =
        (Json_error 400 ''Invalid file type. Only PDF and PPT files are allowed.'', s))"
proof (intro conjI impI allI)
  fix f
  assume "req_file req = Some f \<and> mimetype f = ''image/png''"
  then show "submit_entry stripe env now req s =
      (Json_error 400 ''Invalid file type. Only PDF and PPT files are allowed.'', s)"
    using upload_png [of req f env] by (simp add: submit_entry_def)
next
  assume deck: "req_entryType req = Some ''pitch-deck'' \<and>
    (req_file req = None \<or>
     (\<exists>file. req_file req = Some file \<and> mimetype file \<notin> set allowed_mime_types))"
  then obtain message where
    h: "submit_handler stripe env now req s = (Json_error 400 message, s)"
    using submit_handler_pitch_deck [of req stripe env now s] by blast
  show "snd (submit_entry stripe env now req s) = s"
    using submit_entry_middleware [of stripe env now req s] h by auto
  show "\<exists>message. fst (submit_entry stripe env now req s) = Json_error 400 message \<or>
      fst (submit_entry stripe env now req s) = Json_error 503 message"
    using submit_entry_middleware [of stripe env now req s] h by auto
  assume "mongoConnected env \<and> stripeInitialized env"
  then show "\<exists>message. fst (submit_entry stripe env now req s) = Json_error 400 message"
    using submit_entry_middleware [of stripe env now req s] h by auto
qed

theorem pitch_deck_rejected_witness:
  "submit_entry (example_gateway ''succeeded'') example_env 1000 (deck_request None)
       one_entry_store =
     (Json_error 400 ''File required for pitch-deck entries'', one_entry_store) \<and>
   submit_entry (example_gateway ''succeeded'') example_env 1000 (deck_request (Some png_file))
       one_entry_store =
     (Json_error 400 ''Invalid file type. Only PDF and PPT files are allowed.'',
      one_entry_store) \<and>
   snd (submit_entry (example_gateway ''succeeded'') example_env 1000
     (deck_request (Some (png_file\<lparr>mimetype := ''constructor''\<rparr>))) one_entry_store) =
     one_entry_store \<and>
   (\<exists>message. fst (submit_entry (example_gateway ''succeeded'') example_env 1000
     (deck_request (Some (png_file\<lparr>mimetype := ''constructor''\<rparr>))) one_entry_store) =
     Json_error 400 message)"
proof -
  have env: "mongoConnected example_env \<and> stripeInitialized example_env"
    by (simp add: example_env_def)
  have a: "submit_entry (example_gateway ''succeeded'') example_env 1000 (deck_request None)
       one_entry_store =
     (Json_error 400 ''File required for pitch-deck entries'', one_entry_store)"
    by (simp add: handler_defs example_defs)
  have b: "submit_entry (example_gateway ''succeeded'') example_env 1000
       (deck_request (Some png_file)) one_entry_store =
     (Json_error 400 ''Invalid file type. Only PDF and PPT files are allowed.'',
      one_entry_store)"
    using pitch_deck_rejected [of "deck_request (Some png_file)"
        "example_gateway ''succeeded''" example_env 1000 one_entry_store]
    by (simp add: deck_request_def png_file_def)
  have c: "snd (submit_entry (example_gateway ''succeeded'') example_env 1000
     (deck_request (Some (png_file\<lparr>mimetype := ''constructor''\<rparr>))) one_entry_store) =
     one_entry_store"
    and d: "\<exists>message. fst (submit_entry (example_gateway ''succeeded'') example_env 1000
     (deck_request (Some (png_file\<lparr>mimetype := ''constructor''\<rparr>))) one_entry_store) =
     Json_error 400 message"
    using pitch_deck_rejected [of "deck_request (Some (png_file\<lparr>mimetype := ''constructor''\<rparr>))"
        "example_gateway ''succeeded''" example_env 1000 one_entry_store] env
    by (simp_all add: deck_request_def png_file_def allowed_mime_types_def)
  show ?thesis using a b c d by (intro conjI)
qed

section \<open>Steps and invariants\<close>

lemma findByIdAndDelete_filter:
  "distinct (map entry_id ds) \<Longrightarrow>
   findByIdAndDelete entryId ds = filter (\<lambda>e. entry_id e \<noteq> entryId) ds"
proof (induction ds)
  case Nil
  show ?case by simp
next
  case (Cons e es)
  show ?case
  proof (cases "entry_id e = entryId")
    case True
    then have "\<forall>x \<in> set es. entry_id x \<noteq> entryId"
      using Cons.prems by (auto simp: image_iff)
    then have "filter (\<lambda>e. entry_id e \<noteq> entryId) es = es"
      by (simp add: filter_id_conv)
    then show ?thesis using True by simp
  next
    case False
    then show ?thesis using Cons by simp
  qed
qed

lemma findByIdAndDelete_sublist:
  "set (findByIdAndDelete entryId ds) \<subseteq> set ds"
  by (induction ds) auto

lemma findByIdAndDelete_ids_distinct:
  "distinct (map entry_id ds) \<Longrightarrow> distinct (map entry_id (findByIdAndDelete entryId ds))"
  by (simp add: findByIdAndDelete_filter distinct_map_filter)

lemma findOneAndUpdate_failed_ids:
  "map entry_id (findOneAndUpdate_failed now pid ds) = map entry_id ds"
  by (induction ds) auto

lemma findOneAndUpdate_failed_elems:
  "e' \<in> set (findOneAndUpdate_failed now pid ds) \<Longrightarrow>
   e' \<in> set ds \<or> (\<exists>e \<in> set ds. e' = e\<lparr>paymentStatus := Failed, updatedAt := now\<rparr>)"
  by (induction ds) (auto split: if_splits)

lemma findOneAndUpdate_failed_none:
  "\<forall>e \<in> set ds. paymentIntentId e \<noteq> pid \<Longrightarrow> findOneAndUpdate_failed now pid ds = ds"
  by (induction ds) auto

lemma findOneAndUpdate_failed_first:
  "\<forall>x \<in> set pre. paymentIntentId x \<noteq> pid \<Longrightarrow> paymentIntentId e = pid \<Longrightarrow>
   findOneAndUpdate_failed now pid (pre @ e # post) = pre @ e\<lparr>paymentStatus := Failed, updatedAt := now\<rparr> # post"
  by (induction pre) auto

lemma findById_None_iff:
  "findById entryId ds = None \<longleftrightarrow> (\<forall>e \<in> set ds. entry_id e \<noteq> entryId)"
  by (auto simp: findById_def find_None_iff)

lemma findById_Some:
  "findById entryId ds = Some e \<Longrightarrow> e \<in> set ds \<and> entry_id e = entryId"
  by (auto simp: findById_def find_Some_iff)

text \<open>The effect of each writing request on the collection.\<close>

lemma new_entry_ok_ids [simp]:
  "new_entry_ok (e\<lparr>entry_id := i, submissionDate := t, createdAt := t', updatedAt := t''\<rparr>) = new_entry_ok e"
  by (simp add: new_entry_ok_def)

lemma new_entry_ok_entryData: "new_entry_ok (entryData req fee surcharge)"
  by (simp add: new_entry_ok_def entryData_def blank_entry_def Let_def)

lemma entry_id_number_from:
  "map entry_id (number_from now n es) = [n..<n + length es]"
proof -
  have shift: "map (\<lambda>p. n + fst p) ps = map (\<lambda>i. n + i) (map fst ps)"
    for ps :: "(nat \<times> entry) list"
    by (induction ps) auto
  have "map entry_id (number_from now n es) = map (\<lambda>p. n + fst p) (enumerate 0 es)"
    by (simp add: number_from_def split_def)
  also have "\<dots> = map (\<lambda>i. n + i) (map fst (enumerate 0 es))"
    by (rule shift)
  also have "\<dots> = map (\<lambda>i. n + i) [0..<length es]"
    by simp
  also have "\<dots> = [n..<n + length es]"
    using map_add_upt [of n "length es"] by (simp add: add.commute)
  finally show ?thesis .
qed

lemma new_entry_ok_number_from:
  "\<forall>e \<in> set es. new_entry_ok e \<Longrightarrow> \<forall>e \<in> set (number_from now n es). new_entry_ok e"
  by (auto simp: number_from_def in_set_enumerate_eq)

lemma new_entry_ok_testEntries: "\<forall>e \<in> set (testEntries content now uid). new_entry_ok e"
  by (simp add: testEntries_def new_entry_ok_def blank_entry_def)

lemma appended_nothing: "appended s s []"
  by (simp add: appended_def)

lemma create_test_entry_effect:
  "\<exists>es. appended s (snd (create_test_entry content env now uid s)) es"
proof (cases "mongoConnected env \<and> schema_valid
    ((blank_entry\<lparr>userId := uid, category := ''business'', entryType := ''text'',
        title := ''Sample Business Strategy Entry'',
        description := Some ''A comprehensive business strategy for digital transformation in modern enterprises'',
        textContent := Some content, entryFee := 49, stripeFee := 2, totalAmount := 51,
        paymentIntentId := ''pi_test_'' @ show_nat now,
        paymentStatus := Succeeded\<rparr>)\<lparr>entry_id := nextId s, submissionDate := now, createdAt := now, updatedAt := now\<rparr>)")
  case True
  then have "appended s (snd (create_test_entry content env now uid s))
      [(blank_entry\<lparr>userId := uid, category := ''business'', entryType := ''text'',
        title := ''Sample Business Strategy Entry'',
        description := Some ''A comprehensive business strategy for digital transformation in modern enterprises'',
        textContent := Some content, entryFee := 49, stripeFee := 2, totalAmount := 51,
        paymentIntentId := ''pi_test_'' @ show_nat now,
        paymentStatus := Succeeded\<rparr>)\<lparr>entry_id := nextId s, submissionDate := now, createdAt := now, updatedAt := now\<rparr>]"
    by (simp add: create_test_entry_def checkMongoDBConnection_def save_def Let_def
        appended_def new_entry_ok_def blank_entry_def)
  then show ?thesis by blast
next
  case False
  then have "snd (create_test_entry content env now uid s) = s"
    by (auto simp: create_test_entry_def checkMongoDBConnection_def save_def Let_def)
  then show ?thesis using appended_nothing [of s] by auto
qed

lemma create_test_entries_effect:
  "\<exists>es. appended s (snd (create_test_entries content env now uid s)) es"
proof (cases "mongoConnected env \<and>
    list_all schema_valid (number_from now (nextId s) (testEntries content now uid))")
  case True
  have "\<forall>e \<in> set (number_from now (nextId s) (testEntries content now uid)). new_entry_ok e"
    using new_entry_ok_number_from [OF new_entry_ok_testEntries] .
  then have "appended s (snd (create_test_entries content env now uid s))
      (number_from now (nextId s) (testEntries content now uid))"
    using True entry_id_number_from [of now "nextId s" "testEntries content now uid"]
    by (simp add: create_test_entries_def checkMongoDBConnection_def insertMany_def Let_def
        appended_def list_all_iff number_from_def)
  then show ?thesis by blast
next
  case False
  then have "snd (create_test_entries content env now uid s) = s"
    by (auto simp: create_test_entries_def checkMongoDBConnection_def insertMany_def Let_def)
  then show ?thesis using appended_nothing [of s] by auto
qed

lemma submit_entry_effect:
  "\<exists>es. appended s (snd (submit_entry stripe env now req s)) es"
proof -
  from submit_entry_cases [of stripe env now req s]
  consider (err) code message where
      "submit_entry stripe env now req s = (Json_error code message, s)"
    | (ok) fee surcharge where
      "submit_entry stripe env now req s =
        (Entry_submitted (nextId s),
         \<lparr>docs = docs s @ [(entryData req fee surcharge)
              \<lparr>entry_id := nextId s, submissionDate := now, createdAt := now, updatedAt := now\<rparr>],
          nextId = Suc (nextId s)\<rparr>)"
    by blast
  then show ?thesis
  proof cases
    case err
    then show ?thesis using appended_nothing [of s] by auto
  next
    case ok
    then have "appended s (snd (submit_entry stripe env now req s))
        [(entryData req fee surcharge)
           \<lparr>entry_id := nextId s, submissionDate := now, createdAt := now, updatedAt := now\<rparr>]"
      by (simp add: appended_def new_entry_ok_entryData)
    then show ?thesis by blast
  qed
qed

lemma delete_entry_effect:
  "snd (delete_entry db env param uid s) = s \<or>
   (\<exists>entryId. snd (delete_entry db env param uid s) =
      s\<lparr>docs := findByIdAndDelete entryId (docs s)\<rparr>)"
  by (auto simp: delete_entry_def checkMongoDBConnection_def split: option.split)

text \<open>
  The body that reaches the handler of the first server's webhook is never a
  \<^verbatim>\<open>Buffer\<close>: \<^verbatim>\<open>express.json\<close> has read a JSON body before \<^verbatim>\<open>express.raw\<close> sees it,
  and \<^verbatim>\<open>express.raw\<close> does not read a body of another type.
\<close>

lemma webhook_body_cases:
  "webhook_body d =
     (if media_type d = ''application/json'' then
        (if 50 * 1024 * 1024 < length (payload d) \<or> \<not> payload_is_json d
         then Inl Body_parser_error else Inr Object_body)
      else if media_type d = ''application/x-www-form-urlencoded'' then
        (if 50 * 1024 * 1024 < length (payload d)
         then Inl Body_parser_error else Inr Object_body)
      else Inr Not_read)"
  by (simp add: webhook_body_def express_json_def express_urlencoded_def express_raw_def
      body_parser_def)

lemma webhook_body_no_buffer: "webhook_body d \<noteq> Inr (Buffer_body bytes)"
  by (simp add: webhook_body_cases)

lemma verified_event_needs_buffer:
  "verified_event stripe env body sig = Inr event \<Longrightarrow> \<exists>bytes. body = Buffer_body bytes"
  by (cases body) (auto simp: verified_event_def constructEvent_def split: if_splits)

text \<open>
  So the handler never gets an event: every delivery is answered with the 400 of the
  \<^verbatim>\<open>catch\<close>, or with the 500 of the global error handler when a parser has failed, and the
  store stays as it is.
\<close>

lemma webhook_refuses:
  "webhook stripe env now d s =
     (if \<not> cors env (origin d) then (Json_error 500 ''Internal server error'', s)
      else
        (case webhook_body d of
           Inl err \<Rightarrow> (Json_error 500 ''Internal server error'', s)
         | Inr body \<Rightarrow> (Json_error 400 ''Webhook error'', s)))"
proof (cases "webhook_body d")
  case (Inl err)
  then show ?thesis by (simp add: webhook_def)
next
  case (Inr body)
  have "\<exists>err. verified_event stripe env body (stripe_signature d) = Inl err"
  proof (cases "verified_event stripe env body (stripe_signature d)")
    case (Inl err)
    then show ?thesis by blast
  next
    case (Inr event)
    then obtain bytes where "body = Buffer_body bytes"
      using verified_event_needs_buffer by blast
    then show ?thesis
      using \<open>webhook_body d = Inr body\<close> webhook_body_no_buffer [of d bytes] by simp
  qed
  then show ?thesis
    using Inr by (auto simp: webhook_def)
qed

lemma webhook_effect: "snd (webhook stripe env now d s) = s"
  by (simp add: webhook_refuses split: sum.split)

lemma step_effect:
  assumes "step s s'"
  shows "(\<exists>es. appended s s' es) \<or>
     (\<exists>entryId. s' = s\<lparr>docs := findByIdAndDelete entryId (docs s)\<rparr>)"
  using assms
proof cases
  case (step_test_entry content env now uid)
  then show ?thesis using create_test_entry_effect [of s content env now uid] by simp
next
  case (step_test_entries content env now uid)
  then show ?thesis using create_test_entries_effect [of s content env now uid] by simp
next
  case (step_submit stripe env now req)
  then show ?thesis using submit_entry_effect [of s stripe env now req] by simp
next
  case (step_delete db env param uid')
  then show ?thesis
    using delete_entry_effect [of db env param uid' s] appended_nothing [of s] by auto
next
  case (step_webhook stripe env now d)
  then show ?thesis
    using webhook_effect [of stripe env now d s] appended_nothing [of s] by auto
qed

text \<open>The effect of each writing request of the second server.\<close>

lemma new_entry_ok_entryData_v2: "new_entry_ok (entryData_v2 req fee surcharge)"
  by (simp add: new_entry_ok_def entryData_v2_def blank_entry_def Let_def)

lemma save_v2_effect:
  assumes "new_entry_ok data"
  shows "\<exists>es. appended s (case save_v2 now data s of Inl err \<Rightarrow> s | Inr (entryId, s') \<Rightarrow> s') es"
proof (cases "schema_valid_v2
    (data\<lparr>entry_id := nextId s, submissionDate := now, createdAt := now, updatedAt := now\<rparr>)")
  case True
  then have "appended s (case save_v2 now data s of Inl err \<Rightarrow> s | Inr (entryId, s') \<Rightarrow> s')
      [data\<lparr>entry_id := nextId s, submissionDate := now, createdAt := now, updatedAt := now\<rparr>]"
    using assms by (simp add: save_v2_def Let_def appended_def)
  then show ?thesis by blast
next
  case False
  then show ?thesis
    using appended_nothing [of s] by (auto simp: save_v2_def Let_def)
qed

lemma submit_handler_v2_effect:
  "snd (submit_handler_v2 stripe env now req s) = s \<or>
   (\<exists>fee surcharge. snd (submit_handler_v2 stripe env now req s) =
      (case save_v2 now (entryData_v2 req fee surcharge) s of
         Inl err \<Rightarrow> s | Inr (entryId, s') \<Rightarrow> s'))"
proof (cases "falsy (req_userId req) \<or> falsy (req_category req) \<or>
    falsy (req_entryType req) \<or> falsy (req_title req) \<or> falsy (req_paymentIntentId req)")
  case True
  then show ?thesis by (simp add: submit_handler_v2_def)
next
  case fields: False
  show ?thesis
  proof (cases "pitch_deck_check_v2 req")
    case (Some r)
    then show ?thesis using fields by (simp add: submit_handler_v2_def)
  next
    case None
    show ?thesis
    proof (cases "paymentIntents_retrieve stripe (the (req_paymentIntentId req))")
      case (Inl err)
      then show ?thesis using fields None by (simp add: submit_handler_v2_def)
    next
      case (Inr paymentIntent)
      show ?thesis
      proof (cases "parseInt (map_of (metadata paymentIntent) ''entryFee'')")
        case no_fee: None
        then show ?thesis using fields None Inr by (simp add: submit_handler_v2_def)
      next
        case (Some fee)
        note fee = this
        show ?thesis
        proof (cases "parseInt (map_of (metadata paymentIntent) ''stripeFee'')")
          case no_surcharge: None
          then show ?thesis using fields None Inr fee by (simp add: submit_handler_v2_def)
        next
          case (Some surcharge)
          have "snd (submit_handler_v2 stripe env now req s) = s \<or>
              snd (submit_handler_v2 stripe env now req s) =
                (case save_v2 now (entryData_v2 req fee surcharge) s of
                   Inl err \<Rightarrow> s | Inr (entryId, s') \<Rightarrow> s')"
            using fields None Inr fee Some
            by (simp add: submit_handler_v2_def split: sum.split)
          then show ?thesis by blast
        qed
      qed
    qed
  qed
qed

lemma submit_entry_v2_effect:
  "\<exists>es. appended s (snd (submit_entry_v2 stripe env now req s)) es"
proof -
  have "snd (submit_entry_v2 stripe env now req s) = s \<or>
      snd (submit_entry_v2 stripe env now req s) = snd (submit_handler_v2 stripe env now req s)"
    by (simp add: submit_entry_v2_def split: option.split)
  then show ?thesis
    using submit_handler_v2_effect [of stripe env now req s] appended_nothing [of s]
      save_v2_effect [OF new_entry_ok_entryData_v2, of s now req]
    by auto
qed

lemma create_test_entry_v2_effect:
  "\<exists>es. appended s (snd (create_test_entry_v2 content env now uid s)) es"
proof -
  let ?data = "blank_entry\<lparr>userId := uid, category := ''business'', entryType := ''text'',
      title := ''Sample Business Strategy Entry'',
      description := Some ''A comprehensive business strategy for digital transformation'',
      textContent := Some content, entryFee := 49, stripeFee := 2, totalAmount := 51,
      paymentIntentId := ''pi_test_'' @ show_nat now, paymentStatus := Succeeded\<rparr>"
  have ok: "new_entry_ok ?data"
    by (simp add: new_entry_ok_def blank_entry_def)
  have "snd (create_test_entry_v2 content env now uid s) = s \<or>
      snd (create_test_entry_v2 content env now uid s) =
        (case save_v2 now ?data s of Inl err \<Rightarrow> s | Inr (entryId, s') \<Rightarrow> s')"
    by (simp add: create_test_entry_v2_def split: option.split sum.split)
  then show ?thesis
    using appended_nothing [of s] save_v2_effect [OF ok, of s now] by auto
qed

lemma delete_entry_v2_effect:
  "snd (delete_entry_v2 db env param uid s) = s \<or>
   (\<exists>entryId. snd (delete_entry_v2 db env param uid s) =
      s\<lparr>docs := findByIdAndDelete entryId (docs s)\<rparr>)"
  by (auto simp: delete_entry_v2_def split: option.split)

lemma webhook_v2_effect:
  "snd (webhook_v2 stripe env now d s) = s \<or>
   (\<exists>pid. snd (webhook_v2 stripe env now d s) =
      s\<lparr>docs := findOneAndUpdate_failed now pid (docs s)\<rparr>)"
  by (auto simp: webhook_v2_def split: sum.split option.split)

lemma step_v2_effect:
  assumes "step_v2 s s'"
  shows "(\<exists>es. appended s s' es) \<or>
     (\<exists>entryId. s' = s\<lparr>docs := findByIdAndDelete entryId (docs s)\<rparr>) \<or>
     (\<exists>now pid. s' = s\<lparr>docs := findOneAndUpdate_failed now pid (docs s)\<rparr>)"
  using assms
proof cases
  case (step_v2_test_entry content env now uid)
  then show ?thesis using create_test_entry_v2_effect [of s content env now uid] by simp
next
  case (step_v2_submit stripe env now req)
  then show ?thesis using submit_entry_v2_effect [of s stripe env now req] by simp
next
  case (step_v2_delete db env param uid')
  then show ?thesis
    using delete_entry_v2_effect [of db env param uid' s] appended_nothing [of s] by auto
next
  case (step_v2_webhook stripe env now d)
  then show ?thesis
    using webhook_v2_effect [of stripe env now d s] appended_nothing [of s] by auto
qed

lemma distinct_ids_eq:
  "distinct (map entry_id ds) \<Longrightarrow> a \<in> set ds \<Longrightarrow> b \<in> set ds \<Longrightarrow>
   entry_id a = entry_id b \<Longrightarrow> a = b"
  by (auto simp: distinct_map inj_on_def)

lemma in_set_ids:
  assumes "map entry_id es = [n..<m]" and "e \<in> set es"
  shows "n \<le> entry_id e \<and> entry_id e < m"
proof -
  have "entry_id e \<in> set (map entry_id es)"
    using assms(2) by simp
  then have "entry_id e \<in> set [n..<m]"
    by (simp only: assms(1))
  then show ?thesis by simp
qed

lemma list_all_subset: "list_all P xs \<Longrightarrow> set ys \<subseteq> set xs \<Longrightarrow> list_all P ys"
  by (auto simp: list_all_iff)

lemma store_inv_appended:
  assumes "store_inv s" and "appended s s' es"
  shows "store_inv s'"
proof -
  have ids: "map entry_id es = [nextId s..<nextId s + length es]"
    and dcs: "docs s' = docs s @ es" and nxt: "nextId s' = nextId s + length es"
    and ok: "\<forall>e \<in> set es. new_entry_ok e"
    using assms(2) by (simp_all add: appended_def list_all_iff)
  have old: "\<forall>e \<in> set (docs s). entry_id e < nextId s"
    using assms(1) by (simp add: store_inv_def list_all_iff)
  have new: "\<forall>e \<in> set es. nextId s \<le> entry_id e \<and> entry_id e < nextId s + length es"
    using in_set_ids [OF ids] by blast
  have "distinct (map entry_id es)"
    by (simp only: ids distinct_upt)
  moreover have "set (map entry_id (docs s)) \<inter> set (map entry_id es) = {}"
    using old new by fastforce
  ultimately have d: "distinct (map entry_id (docs s'))"
    using assms(1) by (simp add: store_inv_def dcs)
  have a: "\<forall>e \<in> set (docs s). entry_id e < nextId s + length es \<and>
      totalAmount e = entryFee e + stripeFee e \<and>
      (fileData e = None \<or>
       (entryType e = ''pitch-deck'' \<and>
        fileUrl e = Some (''/api/file/'' @ paymentIntentId e)))"
    using assms(1) by (fastforce simp: store_inv_def list_all_iff)
  have b: "\<forall>e \<in> set es. entry_id e < nextId s + length es \<and>
      totalAmount e = entryFee e + stripeFee e \<and>
      (fileData e = None \<or>
       (entryType e = ''pitch-deck'' \<and>
        fileUrl e = Some (''/api/file/'' @ paymentIntentId e)))"
    using ok new by (simp add: new_entry_ok_def)
  show ?thesis
    using d a b by (auto simp: store_inv_def dcs nxt list_all_iff)
qed

lemma store_inv_delete:
  assumes "store_inv s"
  shows "store_inv (s\<lparr>docs := findByIdAndDelete entryId (docs s)\<rparr>)"
proof -
  have "distinct (map entry_id (findByIdAndDelete entryId (docs s)))"
    using assms by (simp add: store_inv_def findByIdAndDelete_ids_distinct)
  moreover have "list_all (\<lambda>e. entry_id e < nextId s \<and>
          totalAmount e = entryFee e + stripeFee e \<and>
          (fileData e = None \<or>
           (entryType e = ''pitch-deck'' \<and>
            fileUrl e = Some (''/api/file/'' @ paymentIntentId e))))
        (findByIdAndDelete entryId (docs s))"
    using assms list_all_subset [OF _ findByIdAndDelete_sublist]
    by (simp add: store_inv_def)
  ultimately show ?thesis by (simp add: store_inv_def)
qed

lemma store_inv_update:
  assumes "store_inv s"
  shows "store_inv (s\<lparr>docs := findOneAndUpdate_failed now pid (docs s)\<rparr>)"
proof -
  have "\<forall>e' \<in> set (findOneAndUpdate_failed now pid (docs s)). entry_id e' < nextId s \<and>
      totalAmount e' = entryFee e' + stripeFee e' \<and>
      (fileData e' = None \<or>
       (entryType e' = ''pitch-deck'' \<and>
        fileUrl e' = Some (''/api/file/'' @ paymentIntentId e')))"
  proof
    fix e'
    assume "e' \<in> set (findOneAndUpdate_failed now pid (docs s))"
    then have "e' \<in> set (docs s) \<or> (\<exists>e \<in> set (docs s). e' = e\<lparr>paymentStatus := Failed, updatedAt := now\<rparr>)"
      by (rule findOneAndUpdate_failed_elems)
    then show "entry_id e' < nextId s \<and>
      totalAmount e' = entryFee e' + stripeFee e' \<and>
      (fileData e' = None \<or>
       (entryType e' = ''pitch-deck'' \<and>
        fileUrl e' = Some (''/api/file/'' @ paymentIntentId e')))"
      using assms by (auto simp: store_inv_def list_all_iff)
  qed
  then show ?thesis
    using assms by (simp add: store_inv_def list_all_iff findOneAndUpdate_failed_ids)
qed

lemma store_inv_effect: "store_inv s \<Longrightarrow> effect s s' \<Longrightarrow> store_inv s'"
  by (auto elim!: effect.cases intro: store_inv_appended store_inv_delete store_inv_update)

lemma nextId_effect: "effect s s' \<Longrightarrow> nextId s \<le> nextId s'"
  by (auto elim!: effect.cases simp: appended_def)

lemma step_is_effect: "step s s' \<Longrightarrow> effect s s'"
  using step_effect [of s s'] by (auto intro: effect.intros)

lemma step_v2_is_effect: "step_v2 s s' \<Longrightarrow> effect s s'"
  using step_v2_effect [of s s'] by (auto intro: effect.intros)

lemma store_inv_step: "store_inv s \<Longrightarrow> step s s' \<Longrightarrow> store_inv s'"
  by (rule store_inv_effect [OF _ step_is_effect])

lemma store_inv_steps: "step\<^sup>*\<^sup>* s s' \<Longrightarrow> store_inv s \<Longrightarrow> store_inv s'"
  by (induction rule: rtranclp_induct) (auto intro: store_inv_step)

lemma reachable_store_inv: "reachable s \<Longrightarrow> store_inv s"
  using store_inv_steps [of empty_store s]
  by (simp add: reachable_def store_inv_def empty_store_def)

lemma reachable_step: "reachable s \<Longrightarrow> step s s' \<Longrightarrow> reachable s'"
  by (simp add: reachable_def)

lemma reachable_one_entry_store: "reachable one_entry_store"
proof -
  have "step empty_store one_entry_store"
    unfolding one_entry_store_def by (rule step_submit)
  then show ?thesis by (simp add: reachable_def)
qed

lemma store_inv_step_v2: "store_inv s \<Longrightarrow> step_v2 s s' \<Longrightarrow> store_inv s'"
  by (rule store_inv_effect [OF _ step_v2_is_effect])

lemma store_inv_steps_v2: "step_v2\<^sup>*\<^sup>* s s' \<Longrightarrow> store_inv s \<Longrightarrow> store_inv s'"
  by (induction rule: rtranclp_induct) (auto intro: store_inv_step_v2)

lemma reachable_v2_store_inv: "reachable_v2 s \<Longrightarrow> store_inv s"
  using store_inv_steps_v2 [of empty_store s]
  by (simp add: reachable_v2_def store_inv_def empty_store_def)

lemma reachable_v2_step: "reachable_v2 s \<Longrightarrow> step_v2 s s' \<Longrightarrow> reachable_v2 s'"
  by (simp add: reachable_v2_def)

text \<open>
  What a writing request does to the payment status: a document that was there keeps its
  status or becomes failed; a document that was not there is new and succeeded.
\<close>

lemma effect_payment_status:
  assumes "store_inv s" and "effect s s'" and "e' \<in> set (docs s')"
  shows "(\<exists>e \<in> set (docs s). entry_id e = entry_id e' \<and>
            (paymentStatus e' = paymentStatus e \<or> paymentStatus e' = Failed)) \<or>
         (nextId s \<le> entry_id e' \<and> paymentStatus e' = Succeeded)"
  using assms(2)
proof cases
  case (effect_appended es)
  then have "e' \<in> set (docs s) \<or> e' \<in> set es"
    using assms(3) by (auto simp: appended_def)
  then show ?thesis
  proof
    assume "e' \<in> set (docs s)"
    then show ?thesis by blast
  next
    assume new: "e' \<in> set es"
    have "map entry_id es = [nextId s..<nextId s + length es]"
      using effect_appended by (simp add: appended_def)
    then have "nextId s \<le> entry_id e'"
      using in_set_ids [OF _ new] by blast
    moreover have "new_entry_ok e'"
      using effect_appended new by (simp add: appended_def list_all_iff)
    ultimately show ?thesis by (simp add: new_entry_ok_def)
  qed
next
  case (effect_deleted entryId)
  then have "e' \<in> set (docs s)"
    using assms(3) findByIdAndDelete_sublist [of entryId "docs s"] by auto
  then show ?thesis by blast
next
  case (effect_updated now pid)
  then have "e' \<in> set (docs s) \<or> (\<exists>e \<in> set (docs s). e' = e\<lparr>paymentStatus := Failed, updatedAt := now\<rparr>)"
    using assms(3) findOneAndUpdate_failed_elems [of e' now pid "docs s"] by simp
  then show ?thesis by auto
qed

lemma failed_is_final:
  assumes "effect\<^sup>*\<^sup>* s s'" and "store_inv s" and "i < nextId s"
    and "\<forall>e \<in> set (docs s). entry_id e = i \<longrightarrow> paymentStatus e = Failed"
  shows "store_inv s' \<and> i < nextId s' \<and>
     (\<forall>e' \<in> set (docs s'). entry_id e' = i \<longrightarrow> paymentStatus e' = Failed)"
  using assms
proof (induction rule: rtranclp_induct)
  case base
  then show ?case by simp
next
  case (step t u)
  then have t: "store_inv t" "i < nextId t"
    and ih: "\<forall>e \<in> set (docs t). entry_id e = i \<longrightarrow> paymentStatus e = Failed"
    by simp_all
  have "\<forall>e' \<in> set (docs u). entry_id e' = i \<longrightarrow> paymentStatus e' = Failed"
  proof (intro ballI impI)
    fix e'
    assume e': "e' \<in> set (docs u)" and i: "entry_id e' = i"
    from effect_payment_status [OF t(1) step.hyps(2) e']
    show "paymentStatus e' = Failed"
      using ih i t(2) by auto
  qed
  then show ?case
    using t store_inv_effect [OF t(1) step.hyps(2)] nextId_effect [OF step.hyps(2)] by simp
qed

text \<open>No document is ever \<open>pending\<close>.\<close>

lemma effect_not_pending:
  assumes "effect s s'" and "\<forall>e \<in> set (docs s). paymentStatus e \<noteq> Pending"
  shows "\<forall>e \<in> set (docs s'). paymentStatus e \<noteq> Pending"
  using assms(1)
proof cases
  case (effect_appended es)
  then show ?thesis
    using assms(2) by (auto simp: appended_def list_all_iff new_entry_ok_def)
next
  case (effect_deleted entryId)
  then show ?thesis
    using assms(2) findByIdAndDelete_sublist [of entryId "docs s"] by auto
next
  case (effect_updated now pid)
  then show ?thesis
    using assms(2) findOneAndUpdate_failed_elems [of _ now pid "docs s"] by fastforce
qed

lemma effects_not_pending:
  "effect\<^sup>*\<^sup>* s s' \<Longrightarrow> \<forall>e \<in> set (docs s). paymentStatus e \<noteq> Pending \<Longrightarrow>
   \<forall>e \<in> set (docs s'). paymentStatus e \<noteq> Pending"
  by (induction rule: rtranclp_induct) (auto dest: effect_not_pending)

text \<open>
  The two properties for a server whose steps are \<open>R\<close>, in a store \<open>s\<close> that satisfies the
  invariant.
\<close>

lemma payment_status_steps:
  assumes eff: "\<And>t u. R t u \<Longrightarrow> effect t u" and inv: "store_inv s"
  shows "(\<forall>s' e'. R s s' \<and> e' \<in> set (docs s') \<longrightarrow>
         (\<exists>e \<in> set (docs s). entry_id e = entry_id e' \<and>
            (paymentStatus e' = paymentStatus e \<or> paymentStatus e' = Failed)) \<or>
         ((\<forall>e \<in> set (docs s). entry_id e \<noteq> entry_id e') \<and> paymentStatus e' = Succeeded)) \<and>
      (\<forall>s' e e'. R\<^sup>*\<^sup>* s s' \<and> e \<in> set (docs s) \<and> paymentStatus e = Failed \<and>
         e' \<in> set (docs s') \<and> entry_id e' = entry_id e \<longrightarrow> paymentStatus e' = Failed)"
proof (intro conjI allI impI)
  have old: "\<forall>e \<in> set (docs s). entry_id e < nextId s"
    using inv by (simp add: store_inv_def list_all_iff)
  fix s' e'
  assume "R s s' \<and> e' \<in> set (docs s')"
  then have "(\<exists>e \<in> set (docs s). entry_id e = entry_id e' \<and>
          (paymentStatus e' = paymentStatus e \<or> paymentStatus e' = Failed)) \<or>
       (nextId s \<le> entry_id e' \<and> paymentStatus e' = Succeeded)"
    using effect_payment_status [OF inv] eff by blast
  then show "(\<exists>e \<in> set (docs s). entry_id e = entry_id e' \<and>
             (paymentStatus e' = paymentStatus e \<or> paymentStatus e' = Failed)) \<or>
          ((\<forall>e \<in> set (docs s). entry_id e \<noteq> entry_id e') \<and> paymentStatus e' = Succeeded)"
    using old by fastforce
next
  have old: "\<forall>e \<in> set (docs s). entry_id e < nextId s"
    using inv by (simp add: store_inv_def list_all_iff)
  fix s' e e'
  assume h: "R\<^sup>*\<^sup>* s s' \<and> e \<in> set (docs s) \<and> paymentStatus e = Failed \<and>
          e' \<in> set (docs s') \<and> entry_id e' = entry_id e"
  have "R\<^sup>*\<^sup>* s s'"
    using h by simp
  then have steps: "effect\<^sup>*\<^sup>* s s'"
    by (rule rtranclp_mono [THEN predicate2D, rotated]) (auto intro: eff)
  have "\<forall>x \<in> set (docs s). entry_id x = entry_id e \<longrightarrow> paymentStatus x = Failed"
    using h inv distinct_ids_eq [of "docs s" _ e] by (auto simp: store_inv_def)
  moreover have "entry_id e < nextId s"
    using h old by blast
  ultimately show "paymentStatus e' = Failed"
    using failed_is_final [OF steps inv, of "entry_id e"] h by blast
qed

text \<open>
  In the first server, whose webhook accepts no delivery, a step never changes a payment
  status: every document of every reachable store is \<open>succeeded\<close>.
\<close>

lemma step_succeeded:
  assumes "step s s'" and "\<forall>e \<in> set (docs s). paymentStatus e = Succeeded"
  shows "\<forall>e \<in> set (docs s'). paymentStatus e = Succeeded"
proof -
  from step_effect [OF assms(1)]
  consider (app) es where "appended s s' es"
    | (del) entryId where "s' = s\<lparr>docs := findByIdAndDelete entryId (docs s)\<rparr>"
    by blast
  then show ?thesis
  proof cases
    case app
    then show ?thesis
      using assms(2) by (auto simp: appended_def list_all_iff new_entry_ok_def)
  next
    case del
    then show ?thesis
      using assms(2) findByIdAndDelete_sublist [of entryId "docs s"] by auto
  qed
qed

lemma steps_succeeded:
  "step\<^sup>*\<^sup>* s s' \<Longrightarrow> \<forall>e \<in> set (docs s). paymentStatus e = Succeeded \<Longrightarrow>
   \<forall>e \<in> set (docs s'). paymentStatus e = Succeeded"
  by (induction rule: rtranclp_induct) (auto dest: step_succeeded)

lemma reachable_succeeded:
  "reachable s \<Longrightarrow> \<forall>e \<in> set (docs s). paymentStatus e = Succeeded"
  using steps_succeeded [of empty_store s] by (simp add: reachable_def empty_store_def)

lemma reachable_v2_not_pending:
  assumes "reachable_v2 s"
  shows "\<forall>e \<in> set (docs s). paymentStatus e \<noteq> Pending"
proof -
  have "step_v2\<^sup>*\<^sup>* empty_store s"
    using assms by (simp add: reachable_v2_def)
  then have "effect\<^sup>*\<^sup>* empty_store s"
    by (rule rtranclp_mono [THEN predicate2D, rotated]) (auto intro: step_v2_is_effect)
  then show ?thesis
    using effects_not_pending [of empty_store s] by (simp add: empty_store_def)
qed

section \<open>Payment status\<close>

lemma notified_store_eq:
  "notified_store =
     \<lparr>docs =
        [\<lparr>entry_id = 0, userId = ''user_1'', category = ''business'',
           entryType = ''video'', title = ''Pitch video'',
           description = None, textContent = None, fileData = None,
           fileName = None, fileType = None, fileSize = None,
           fileUrl = None, videoUrl = Some ''https://youtu.be/abc'',
           entryFee = 49, stripeFee = 2, totalAmount = 51,
           paymentIntentId = ''pi_1'', paymentStatus = Succeeded,
           submissionDate = 1000, status = Submitted, createdAt = 1000,
           updatedAt = 1000\<rparr>],
      nextId = Suc 0\<rparr>"
  by (simp add: notified_store_def webhook_effect one_entry_store_eq)

lemma resubmitted_store_eq:
  "resubmitted_store =
     \<lparr>docs =
        [\<lparr>entry_id = 0, userId = ''user_1'', category = ''business'',
           entryType = ''video'', title = ''Pitch video'',
           description = None, textContent = None, fileData = None,
           fileName = None, fileType = None, fileSize = None,
           fileUrl = None, videoUrl = Some ''https://youtu.be/abc'',
           entryFee = 49, stripeFee = 2, totalAmount = 51,
           paymentIntentId = ''pi_1'', paymentStatus = Succeeded,
           submissionDate = 1000, status = Submitted, createdAt = 1000,
           updatedAt = 1000\<rparr>,
         \<lparr>entry_id = 1, userId = ''user_1'', category = ''business'',
           entryType = ''video'', title = ''Pitch video'',
           description = None, textContent = None, fileData = None,
           fileName = None, fileType = None, fileSize = None,
           fileUrl = None, videoUrl = Some ''https://youtu.be/abc'',
           entryFee = 49, stripeFee = 2, totalAmount = 51,
           paymentIntentId = ''pi_1'', paymentStatus = Succeeded,
           submissionDate = 2000, status = Submitted, createdAt = 2000,
           updatedAt = 2000\<rparr>],
      nextId = Suc (Suc 0)\<rparr>"
  by (simp add: resubmitted_store_def notified_store_eq handler_defs example_defs parse_defs
      schema_defs Let_def)

lemma step_one_entry_notified: "step one_entry_store notified_store"
  unfolding notified_store_def by (rule step_webhook)

lemma step_notified_resubmitted: "step notified_store resubmitted_store"
  unfolding resubmitted_store_def by (rule step_submit)

lemma reachable_notified_store: "reachable notified_store"
  using reachable_step [OF reachable_one_entry_store step_one_entry_notified] .

lemma reachable_resubmitted_store: "reachable resubmitted_store"
  using reachable_step [OF reachable_notified_store step_notified_resubmitted] .

text \<open>The same requests to the second server.\<close>

lemmas handler_v2_defs =
  submit_entry_v2_def connect_middleware_def upload_v2_def submit_handler_v2_def
  pitch_deck_check_v2_def falsy_def truthy_def

lemmas schema_v2_defs =
  save_v2_def entryData_v2_def blank_entry_def schema_valid_v2_def doValidate_def
  textContent_validator_def fileUrl_validator_v2_def videoUrl_validator_def
  urlPattern_test_def starts_with_def to_lower_def

lemmas webhook_v2_defs =
  webhook_v2_def webhook_body_v2_def express_raw_def express_json_def body_parser_def
  connect_middleware_def constructEvent_def falsy_def example_delivery_def json_event_def
  quoted_def

lemma one_entry_store_v2_eq:
  "one_entry_store_v2 =
     \<lparr>docs =
        [\<lparr>entry_id = 0, userId = ''user_1'', category = ''business'',
           entryType = ''video'', title = ''Pitch video'',
           description = Some [], textContent = None, fileData = None,
           fileName = None, fileType = None, fileSize = None,
           fileUrl = None, videoUrl = Some ''https://youtu.be/abc'',
           entryFee = 49, stripeFee = 2, totalAmount = 51,
           paymentIntentId = ''pi_1'', paymentStatus = Succeeded,
           submissionDate = 1000, status = Submitted, createdAt = 1000,
           updatedAt = 1000\<rparr>],
      nextId = Suc 0\<rparr>"
  by (simp add: one_entry_store_v2_def handler_v2_defs example_defs parse_defs schema_v2_defs
      empty_store_def Let_def)

lemma webhook_v2_one_entry_store:
  "webhook_v2 (example_gateway ''succeeded'') example_env 1500
       (example_delivery ''payment_intent.payment_failed'' (Some ''valid''))
       one_entry_store_v2 =
     (Received,
      \<lparr>docs =
        [\<lparr>entry_id = 0, userId = ''user_1'', category = ''business'',
           entryType = ''video'', title = ''Pitch video'',
           description = Some [], textContent = None, fileData = None,
           fileName = None, fileType = None, fileSize = None,
           fileUrl = None, videoUrl = Some ''https://youtu.be/abc'',
           entryFee = 49, stripeFee = 2, totalAmount = 51,
           paymentIntentId = ''pi_1'', paymentStatus = Failed,
           submissionDate = 1000, status = Submitted, createdAt = 1000,
           updatedAt = 1500\<rparr>],
      nextId = Suc 0\<rparr>)"
  by (simp add: one_entry_store_v2_eq webhook_v2_defs example_gateway_def example_env_def)

lemma failed_store_v2_eq:
  "failed_store_v2 =
     \<lparr>docs =
        [\<lparr>entry_id = 0, userId = ''user_1'', category = ''business'',
           entryType = ''video'', title = ''Pitch video'',
           description = Some [], textContent = None, fileData = None,
           fileName = None, fileType = None, fileSize = None,
           fileUrl = None, videoUrl = Some ''https://youtu.be/abc'',
           entryFee = 49, stripeFee = 2, totalAmount = 51,
           paymentIntentId = ''pi_1'', paymentStatus = Failed,
           submissionDate = 1000, status = Submitted, createdAt = 1000,
           updatedAt = 1500\<rparr>],
      nextId = Suc 0\<rparr>"
  by (simp add: failed_store_v2_def webhook_v2_one_entry_store)

lemma resubmitted_store_v2_eq:
  "resubmitted_store_v2 =
     \<lparr>docs =
        [\<lparr>entry_id = 0, userId = ''user_1'', category = ''business'',
           entryType = ''video'', title = ''Pitch video'',
           description = Some [], textContent = None, fileData = None,
           fileName = None, fileType = None, fileSize = None,
           fileUrl = None, videoUrl = Some ''https://youtu.be/abc'',
           entryFee = 49, stripeFee = 2, totalAmount = 51,
           paymentIntentId = ''pi_1'', paymentStatus = Failed,
           submissionDate = 1000, status = Submitted, createdAt = 1000,
           updatedAt = 1500\<rparr>,
         \<lparr>entry_id = 1, userId = ''user_1'', category = ''business'',
           entryType = ''video'', title = ''Pitch video'',
           description = Some [], textContent = None, fileData = None,
           fileName = None, fileType = None, fileSize = None,
           fileUrl = None, videoUrl = Some ''https://youtu.be/abc'',
           entryFee = 49, stripeFee = 2, totalAmount = 51,
           paymentIntentId = ''pi_1'', paymentStatus = Succeeded,
           submissionDate = 2000, status = Submitted, createdAt = 2000,
           updatedAt = 2000\<rparr>],
      nextId = Suc (Suc 0)\<rparr>"
  by (simp add: resubmitted_store_v2_def failed_store_v2_eq handler_v2_defs example_defs
      parse_defs schema_v2_defs Let_def)

lemma reachable_v2_one_entry_store: "reachable_v2 one_entry_store_v2"
proof -
  have "step_v2 empty_store one_entry_store_v2"
    unfolding one_entry_store_v2_def by (rule step_v2_submit)
  then show ?thesis by (simp add: reachable_v2_def)
qed

lemma step_v2_one_entry_failed: "step_v2 one_entry_store_v2 failed_store_v2"
  unfolding failed_store_v2_def by (rule step_v2_webhook)

lemma step_v2_failed_resubmitted: "step_v2 failed_store_v2 resubmitted_store_v2"
  unfolding resubmitted_store_v2_def by (rule step_v2_submit)

lemma reachable_v2_failed_store: "reachable_v2 failed_store_v2"
  using reachable_v2_step [OF reachable_v2_one_entry_store step_v2_one_entry_failed] .

text \<open>
  C2, as amended. In both servers no document is ever stored as \<open>pending\<close>: every document
  is created as \<open>succeeded\<close>. In every reachable store a step leaves each document's payment
  status as it was or sets it to \<open>failed\<close>, and every document the step adds is
  \<open>succeeded\<close>; a document that is \<open>failed\<close> stays \<open>failed\<close> through any further steps, so
  \<open>failed\<close> never becomes \<open>succeeded\<close>. (The step from \<open>succeeded\<close> to \<open>failed\<close> does
  occur: it is the only change the webhook makes, whatever the status was.)
\<close>

theorem payment_status_transitions:
  "(reachable s \<longrightarrow>
      (\<forall>e \<in> set (docs s). paymentStatus e \<noteq> Pending) \<and>
      (\<forall>s' e'. step s s' \<and> e' \<in> set (docs s') \<longrightarrow>
         (\<exists>e \<in> set (docs s). entry_id e = entry_id e' \<and>
            (paymentStatus e' = paymentStatus e \<or> paymentStatus e' = Failed)) \<or>
         ((\<forall>e \<in> set (docs s). entry_id e \<noteq> entry_id e') \<and> paymentStatus e' = Succeeded)) \<and>
      (\<forall>s' e e'. step\<^sup>*\<^sup>* s s' \<and> e \<in> set (docs s) \<and> paymentStatus e = Failed \<and>
         e' \<in> set (docs s') \<and> entry_id e' = entry_id e \<longrightarrow> paymentStatus e' = Failed)) \<and>
   (reachable_v2 s \<longrightarrow>
      (\<forall>e \<in> set (docs s). paymentStatus e \<noteq> Pending) \<and>
      (\<forall>s' e'. step_v2 s s' \<and> e' \<in> set (docs s') \<longrightarrow>
         (\<exists>e \<in> set (docs s). entry_id e = entry_id e' \<and>
            (paymentStatus e' = paymentStatus e \<or> paymentStatus e' = Failed)) \<or>
         ((\<forall>e \<in> set (docs s). entry_id e \<noteq> entry_id e') \<and> paymentStatus e' = Succeeded)) \<and>
      (\<forall>s' e e'. step_v2\<^sup>*\<^sup>* s s' \<and> e \<in> set (docs s) \<and> paymentStatus e = Failed \<and>
         e' \<in> set (docs s') \<and> entry_id e' = entry_id e \<longrightarrow> paymentStatus e' = Failed))"
proof (intro conjI impI)
  assume "reachable s"
  then show "\<forall>e \<in> set (docs s). paymentStatus e \<noteq> Pending"
    using reachable_succeeded [of s] by auto
next
  assume "reachable_v2 s"
  then show "\<forall>e \<in> set (docs s). paymentStatus e \<noteq> Pending"
    by (rule reachable_v2_not_pending)
next
  assume "reachable s"
  then have inv: "store_inv s"
    by (rule reachable_store_inv)
  note t = payment_status_steps [of step, OF step_is_effect inv]
  show "\<forall>s' e'. step s s' \<and> e' \<in> set (docs s') \<longrightarrow>
         (\<exists>e \<in> set (docs s). entry_id e = entry_id e' \<and>
            (paymentStatus e' = paymentStatus e \<or> paymentStatus e' = Failed)) \<or>
         ((\<forall>e \<in> set (docs s). entry_id e \<noteq> entry_id e') \<and> paymentStatus e' = Succeeded)"
    using t by (rule conjunct1)
  show "\<forall>s' e e'. step\<^sup>*\<^sup>* s s' \<and> e \<in> set (docs s) \<and> paymentStatus e = Failed \<and>
         e' \<in> set (docs s') \<and> entry_id e' = entry_id e \<longrightarrow> paymentStatus e' = Failed"
    using t by (rule conjunct2)
next
  assume "reachable_v2 s"
  then have inv: "store_inv s"
    by (rule reachable_v2_store_inv)
  note t = payment_status_steps [of step_v2, OF step_v2_is_effect inv]
  show "\<forall>s' e'. step_v2 s s' \<and> e' \<in> set (docs s') \<longrightarrow>
         (\<exists>e \<in> set (docs s). entry_id e = entry_id e' \<and>
            (paymentStatus e' = paymentStatus e \<or> paymentStatus e' = Failed)) \<or>
         ((\<forall>e \<in> set (docs s). entry_id e \<noteq> entry_id e') \<and> paymentStatus e' = Succeeded)"
    using t by (rule conjunct1)
  show "\<forall>s' e e'. step_v2\<^sup>*\<^sup>* s s' \<and> e \<in> set (docs s) \<and> paymentStatus e = Failed \<and>
         e' \<in> set (docs s') \<and> entry_id e' = entry_id e \<longrightarrow> paymentStatus e' = Failed"
    using t by (rule conjunct2)
qed

theorem payment_status_transitions_witness:
  "reachable resubmitted_store \<and>
   map (\<lambda>e. (entry_id e, paymentStatus e)) (docs resubmitted_store) =
     [(0, Succeeded), (1, Succeeded)] \<and>
   list_all (\<lambda>e. paymentStatus e \<noteq> Pending) (docs resubmitted_store) \<and>
   reachable_v2 failed_store_v2 \<and> step_v2\<^sup>*\<^sup>* failed_store_v2 resubmitted_store_v2 \<and>
   map (\<lambda>e. (entry_id e, paymentStatus e)) (docs failed_store_v2) = [(0, Failed)] \<and>
   map (\<lambda>e. (entry_id e, paymentStatus e)) (docs resubmitted_store_v2) =
     [(0, Failed), (1, Succeeded)] \<and>
   paymentStatus (hd (docs resubmitted_store_v2)) = Failed"
proof -
  have first: "list_all (\<lambda>e. paymentStatus e \<noteq> Pending) (docs resubmitted_store)"
    using payment_status_transitions [of resubmitted_store] reachable_resubmitted_store
    by (simp add: list_all_iff)
  have st: "step_v2\<^sup>*\<^sup>* failed_store_v2 resubmitted_store_v2"
    using step_v2_failed_resubmitted by blast
  have a: "hd (docs failed_store_v2) \<in> set (docs failed_store_v2)"
    and b: "paymentStatus (hd (docs failed_store_v2)) = Failed"
    and c: "hd (docs resubmitted_store_v2) \<in> set (docs resubmitted_store_v2)"
    and d: "entry_id (hd (docs resubmitted_store_v2)) = entry_id (hd (docs failed_store_v2))"
    by (simp_all add: failed_store_v2_eq resubmitted_store_v2_eq)
  have "paymentStatus (hd (docs resubmitted_store_v2)) = Failed"
    using payment_status_transitions [of failed_store_v2] reachable_v2_failed_store st a b c d
    by blast
  then show ?thesis
    using reachable_resubmitted_store first reachable_v2_failed_store st
    by (simp add: resubmitted_store_eq failed_store_v2_eq resubmitted_store_v2_eq)
qed

text \<open>
  The claim as stated fails in the second server: the entry of the store below is
  \<open>succeeded\<close>, and one webhook delivery of \<^verbatim>\<open>payment_intent.payment_failed\<close> for its payment
  intent, with a signature that verifies, makes it \<open>failed\<close>.
\<close>

theorem succeeded_to_failed_counterexample:
  "reachable_v2 one_entry_store_v2 \<and> step_v2 one_entry_store_v2 failed_store_v2 \<and>
   webhook_v2 (example_gateway ''succeeded'') example_env 1500
       (example_delivery ''payment_intent.payment_failed'' (Some ''valid''))
       one_entry_store_v2 = (Received, failed_store_v2) \<and>
   map entry_id (docs one_entry_store_v2) = [0] \<and>
   map paymentStatus (docs one_entry_store_v2) = [Succeeded] \<and>
   map entry_id (docs failed_store_v2) = [0] \<and>
   map paymentStatus (docs failed_store_v2) = [Failed]"
proof -
  have w: "webhook_v2 (example_gateway ''succeeded'') example_env 1500
       (example_delivery ''payment_intent.payment_failed'' (Some ''valid''))
       one_entry_store_v2 = (Received, failed_store_v2)"
    by (simp only: webhook_v2_one_entry_store failed_store_v2_eq)
  show ?thesis
    using reachable_v2_one_entry_store step_v2_one_entry_failed w
    by (simp add: one_entry_store_v2_eq failed_store_v2_eq)
qed

section \<open>Amounts\<close>

lemma entryData_fees:
  "entryFee (entryData req fee surcharge) = fee \<and>
   stripeFee (entryData req fee surcharge) = surcharge \<and>
   totalAmount (entryData req fee surcharge) = fee + surcharge"
  by (simp add: entryData_def blank_entry_def Let_def)

text \<open>
  C4. Every document of every reachable store has \<open>totalAmount = entryFee + stripeFee\<close>; and
  the document a successful submission appends has the two fees that \<^verbatim>\<open>parseInt\<close> reads
  from the metadata of the payment intent the gateway returned, and their sum as total.
\<close>

theorem total_amount_invariant:
  "(reachable s \<longrightarrow> (\<forall>e \<in> set (docs s). totalAmount e = entryFee e + stripeFee e)) \<and>
   (\<forall>entryId s'. submit_entry stripe env now req s = (Entry_submitted entryId, s') \<longrightarrow>
      (\<exists>paymentIntent e.
         paymentIntents_retrieve stripe (the (req_paymentIntentId req)) = Inr paymentIntent \<and>
         docs s' = docs s @ [e] \<and>
         parseInt (map_of (metadata paymentIntent) ''entryFee'') = Some (entryFee e) \<and>
         parseInt (map_of (metadata paymentIntent) ''stripeFee'') = Some (stripeFee e) \<and>
         totalAmount e = entryFee e + stripeFee e))"
proof (intro conjI allI impI)
  assume "reachable s"
  then show "\<forall>e \<in> set (docs s). totalAmount e = entryFee e + stripeFee e"
    using reachable_store_inv [of s] by (simp add: store_inv_def list_all_iff)
next
  fix entryId s'
  assume ok: "submit_entry stripe env now req s = (Entry_submitted entryId, s')"
  from submit_entry_cases [of stripe env now req s] ok
  obtain paymentIntent fee surcharge where
    r: "paymentIntents_retrieve stripe (the (req_paymentIntentId req)) = Inr paymentIntent"
    and f: "parseInt (map_of (metadata paymentIntent) ''entryFee'') = Some fee"
    and g: "parseInt (map_of (metadata paymentIntent) ''stripeFee'') = Some surcharge"
    and d: "docs s' = docs s @ [(entryData req fee surcharge)
              \<lparr>entry_id := nextId s, submissionDate := now, createdAt := now, updatedAt := now\<rparr>]"
    by auto
  show "\<exists>paymentIntent e.
         paymentIntents_retrieve stripe (the (req_paymentIntentId req)) = Inr paymentIntent \<and>
         docs s' = docs s @ [e] \<and>
         parseInt (map_of (metadata paymentIntent) ''entryFee'') = Some (entryFee e) \<and>
         parseInt (map_of (metadata paymentIntent) ''stripeFee'') = Some (stripeFee e) \<and>
         totalAmount e = entryFee e + stripeFee e"
    using r f g d entryData_fees [of req fee surcharge] by auto
qed

theorem total_amount_invariant_witness:
  "reachable resubmitted_store \<and>
   map (\<lambda>e. (entryFee e, stripeFee e, totalAmount e)) (docs resubmitted_store) =
     [(49, 2, 51), (49, 2, 51)] \<and>
   list_all (\<lambda>e. totalAmount e = entryFee e + stripeFee e) (docs resubmitted_store) \<and>
   (\<exists>paymentIntent e.
      paymentIntents_retrieve (example_gateway ''succeeded'') ''pi_1'' = Inr paymentIntent \<and>
      docs resubmitted_store = docs notified_store @ [e] \<and>
      parseInt (map_of (metadata paymentIntent) ''entryFee'') = Some (entryFee e) \<and>
      parseInt (map_of (metadata paymentIntent) ''stripeFee'') = Some (stripeFee e) \<and>
      totalAmount e = entryFee e + stripeFee e)"
proof -
  have r: "reachable resubmitted_store"
    using reachable_step [OF reachable_notified_store step_notified_resubmitted] .
  have a: "list_all (\<lambda>e. totalAmount e = entryFee e + stripeFee e) (docs resubmitted_store)"
    using total_amount_invariant [of resubmitted_store] r by (simp add: list_all_iff)
  have sub: "submit_entry (example_gateway ''succeeded'') example_env 2000
      (video_request ''user_1'' ''pi_1'') notified_store = (Entry_submitted 1, resubmitted_store)"
    by (simp add: resubmitted_store_eq)
      (simp add: notified_store_eq handler_defs example_defs parse_defs schema_defs Let_def)
  have p: "the (req_paymentIntentId (video_request ''user_1'' ''pi_1'')) = ''pi_1''"
    by (simp add: video_request_def)
  note t = total_amount_invariant [of notified_store "example_gateway ''succeeded''" example_env
      2000 "video_request ''user_1'' ''pi_1''", THEN conjunct2, rule_format, OF sub]
  have b: "\<exists>paymentIntent e.
      paymentIntents_retrieve (example_gateway ''succeeded'') ''pi_1'' = Inr paymentIntent \<and>
      docs resubmitted_store = docs notified_store @ [e] \<and>
      parseInt (map_of (metadata paymentIntent) ''entryFee'') = Some (entryFee e) \<and>
      parseInt (map_of (metadata paymentIntent) ''stripeFee'') = Some (stripeFee e) \<and>
      totalAmount e = entryFee e + stripeFee e"
    using t by (simp only: p)
  have m: "map (\<lambda>e. (entryFee e, stripeFee e, totalAmount e)) (docs resubmitted_store) =
     [(49, 2, 51), (49, 2, 51)]"
    by (simp add: resubmitted_store_eq)
  show ?thesis
    using r m a b by (intro conjI)
qed

section \<open>Deleting\<close>

lemma findById_filter_absent:
  "findById entryId (filter (\<lambda>x. entry_id x \<noteq> entryId) ds) = None"
  by (simp add: findById_None_iff)

lemma castObjectId_example_db:
  "castObjectId example_db ''7'' = None"
  "castObjectId example_db ''000000000000000000000000'' = Some 0"
  "castObjectId example_db ''000000000000000000000007'' = Some 7"
  by (simp_all add: example_db_def digit_value_def)

text \<open>
  C7, as amended. Without a database connection the answer is 503. With it: when the
  identifier of the request is not one the database library can cast, the lookup throws
  and the answer is 500 \<open>Failed to delete entry\<close>; otherwise, when no document has the
  identifier the answer is 404; when the document belongs to another user the answer is
  403; in all these cases the store is unchanged. When the owner matches, the answer is 200,
  the document is removed (the other documents stay as they are), and, in a reachable
  store, reading that identifier afterwards is answered with 404.
\<close>

theorem delete_entry_outcomes:
  "(\<not> mongoConnected env \<longrightarrow>
      delete_entry db env param uid s =
        (Json_error 503 ''Service unavailable: Database not connected'', s)) \<and>
   (mongoConnected env \<longrightarrow>
      (castObjectId db param = None \<longrightarrow>
         delete_entry db env param uid s = (Json_error 500 ''Failed to delete entry'', s)) \<and>
      (\<forall>entryId. castObjectId db param = Some entryId \<longrightarrow>
         (findById entryId (docs s) = None \<longrightarrow>
            delete_entry db env param uid s = (Json_error 404 ''Entry not found'', s)) \<and>
         (\<forall>e. findById entryId (docs s) = Some e \<and> Some (userId e) \<noteq> uid \<longrightarrow>
            delete_entry db env param uid s =
              (Json_error 403 ''Not authorized to delete this entry'', s)) \<and>
         (\<forall>e. findById entryId (docs s) = Some e \<and> Some (userId e) = uid \<longrightarrow>
            delete_entry db env param uid s =
              (Entry_deleted, s\<lparr>docs := findByIdAndDelete entryId (docs s)\<rparr>) \<and>
            status_code (fst (delete_entry db env param uid s)) = 200 \<and>
            (reachable s \<longrightarrow>
               docs (snd (delete_entry db env param uid s)) =
                 filter (\<lambda>x. entry_id x \<noteq> entryId) (docs s) \<and>
               get_entry db env param (snd (delete_entry db env param uid s)) =
                 Json_error 404 ''Entry not found''))))"
proof (intro conjI allI impI)
  assume "\<not> mongoConnected env"
  then show "delete_entry db env param uid s =
      (Json_error 503 ''Service unavailable: Database not connected'', s)"
    by (simp add: delete_entry_def checkMongoDBConnection_def)
next
  assume "mongoConnected env" and "castObjectId db param = None"
  then show "delete_entry db env param uid s = (Json_error 500 ''Failed to delete entry'', s)"
    by (simp add: delete_entry_def checkMongoDBConnection_def)
next
  fix entryId
  assume "mongoConnected env" and "castObjectId db param = Some entryId"
    and "findById entryId (docs s) = None"
  then show "delete_entry db env param uid s = (Json_error 404 ''Entry not found'', s)"
    by (simp add: delete_entry_def checkMongoDBConnection_def)
next
  fix entryId e
  assume "mongoConnected env" and "castObjectId db param = Some entryId"
    and "findById entryId (docs s) = Some e \<and> Some (userId e) \<noteq> uid"
  then show "delete_entry db env param uid s =
      (Json_error 403 ''Not authorized to delete this entry'', s)"
    by (simp add: delete_entry_def checkMongoDBConnection_def)
next
  fix entryId e
  assume m: "mongoConnected env" and c: "castObjectId db param = Some entryId"
    and h: "findById entryId (docs s) = Some e \<and> Some (userId e) = uid"
  then show del: "delete_entry db env param uid s =
      (Entry_deleted, s\<lparr>docs := findByIdAndDelete entryId (docs s)\<rparr>)"
    by (auto simp: delete_entry_def checkMongoDBConnection_def)
  then show "status_code (fst (delete_entry db env param uid s)) = 200"
    by simp
  assume "reachable s"
  then have "distinct (map entry_id (docs s))"
    using reachable_store_inv [of s] by (simp add: store_inv_def)
  then have f: "findByIdAndDelete entryId (docs s) = filter (\<lambda>x. entry_id x \<noteq> entryId) (docs s)"
    by (rule findByIdAndDelete_filter)
  show "docs (snd (delete_entry db env param uid s)) =
      filter (\<lambda>x. entry_id x \<noteq> entryId) (docs s)"
    using del f by simp
  show "get_entry db env param (snd (delete_entry db env param uid s)) =
      Json_error 404 ''Entry not found''"
    using del f m c
    by (simp add: get_entry_def checkMongoDBConnection_def findById_filter_absent)
qed

theorem delete_entry_outcomes_witness:
  "delete_entry example_db example_env ''7'' (Some ''user_1'') resubmitted_store =
     (Json_error 500 ''Failed to delete entry'', resubmitted_store) \<and>
   delete_entry example_db example_env ''000000000000000000000007'' (Some ''user_1'')
       resubmitted_store =
     (Json_error 404 ''Entry not found'', resubmitted_store) \<and>
   delete_entry example_db example_env ''000000000000000000000000'' (Some ''user_2'')
       resubmitted_store =
     (Json_error 403 ''Not authorized to delete this entry'', resubmitted_store) \<and>
   fst (delete_entry example_db example_env ''000000000000000000000000'' (Some ''user_1'')
     resubmitted_store) = Entry_deleted \<and>
   map entry_id (docs (snd (delete_entry example_db example_env ''000000000000000000000000''
     (Some ''user_1'') resubmitted_store))) = [1] \<and>
   get_entry example_db example_env ''000000000000000000000000''
       (snd (delete_entry example_db example_env ''000000000000000000000000''
          (Some ''user_1'') resubmitted_store)) =
     Json_error 404 ''Entry not found''"
proof -
  have m: "mongoConnected example_env"
    by (simp add: example_env_def)
  have f7: "findById 7 (docs resubmitted_store) = None"
    by (simp add: findById_def resubmitted_store_eq)
  have f0: "findById 0 (docs resubmitted_store) = Some (hd (docs resubmitted_store))"
    and u: "userId (hd (docs resubmitted_store)) = ''user_1''"
    by (simp_all add: findById_def resubmitted_store_eq)
  note t = delete_entry_outcomes [of example_env example_db _ _ resubmitted_store,
      THEN conjunct2, rule_format, OF m]
  have z: "delete_entry example_db example_env ''7'' (Some ''user_1'') resubmitted_store =
     (Json_error 500 ''Failed to delete entry'', resubmitted_store)"
    using t [of "''7''" "Some ''user_1''", THEN conjunct1] castObjectId_example_db(1) by simp
  note t7 = t [of "''000000000000000000000007''" _, THEN conjunct2, rule_format,
      OF castObjectId_example_db(3)]
  note t0 = t [of "''000000000000000000000000''" _, THEN conjunct2, rule_format,
      OF castObjectId_example_db(2)]
  have a: "delete_entry example_db example_env ''000000000000000000000007'' (Some ''user_1'')
       resubmitted_store =
     (Json_error 404 ''Entry not found'', resubmitted_store)"
    using t7 [of "Some ''user_1''"] f7 by simp
  have b: "delete_entry example_db example_env ''000000000000000000000000'' (Some ''user_2'')
       resubmitted_store =
     (Json_error 403 ''Not authorized to delete this entry'', resubmitted_store)"
    using t0 [of "Some ''user_2''"] f0 u by simp
  have own: "Some (userId (hd (docs resubmitted_store))) = Some ''user_1''"
    using u by simp
  have del: "delete_entry example_db example_env ''000000000000000000000000''
        (Some ''user_1'') resubmitted_store =
      (Entry_deleted, resubmitted_store\<lparr>docs := findByIdAndDelete 0 (docs resubmitted_store)\<rparr>)"
    and rest: "docs (snd (delete_entry example_db example_env ''000000000000000000000000''
        (Some ''user_1'') resubmitted_store)) =
        filter (\<lambda>x. entry_id x \<noteq> 0) (docs resubmitted_store)"
    and gone: "get_entry example_db example_env ''000000000000000000000000''
          (snd (delete_entry example_db example_env ''000000000000000000000000''
             (Some ''user_1'') resubmitted_store)) =
        Json_error 404 ''Entry not found''"
    using t0 [of "Some ''user_1''"] f0 own reachable_resubmitted_store
    by blast+
  have c: "fst (delete_entry example_db example_env ''000000000000000000000000''
      (Some ''user_1'') resubmitted_store) = Entry_deleted"
    by (simp only: del fst_conv)
  have d: "map entry_id (filter (\<lambda>x. entry_id x \<noteq> 0) (docs resubmitted_store)) = [1]"
    by (simp add: resubmitted_store_eq)
  show ?thesis
    using z a b c d gone by (simp only: rest)
qed

text \<open>
  The claim as stated fails for an identifier that the database library cannot cast: no
  document has the identifier \<^verbatim>\<open>7\<close>, and the request to delete it is answered with 500
  \<open>Failed to delete entry\<close>, not with 404.
\<close>

theorem delete_malformed_id_counterexample:
  "castObjectId example_db ''7'' = None \<and>
   delete_entry example_db example_env ''7'' (Some ''user_1'') resubmitted_store =
     (Json_error 500 ''Failed to delete entry'', resubmitted_store) \<and>
   status_code (fst (delete_entry example_db example_env ''7'' (Some ''user_1'')
     resubmitted_store)) = 500"
  by (simp add: delete_entry_def checkMongoDBConnection_def example_env_def
      castObjectId_example_db)

section \<open>The webhook\<close>

lemma example_delivery_verifies:
  "t \<in> set [''payment_intent.payment_failed'', ''payment_intent.succeeded''] \<Longrightarrow>
   webhooks_constructEvent (example_gateway st) (payload (example_delivery t (Some ''valid'')))
       (stripe_signature (example_delivery t (Some ''valid''))) ''whsec_test'' =
     Inr \<lparr>event_type = t, object_id = ''pi_1''\<rparr>"
  by (auto simp: example_gateway_def example_delivery_def json_event_def quoted_def)

text \<open>
  C9. In the first server every delivery to the webhook is refused and changes nothing,
  whatever its signature: the answer is the 400 of the handler's \<^verbatim>\<open>catch\<close>, or the 500 of
  the global error handler when the CORS check or a body parser has failed. So a delivery
  whose signature does not verify is answered as claimed (400, unless it is stopped before
  the handler), but a delivery of \<^verbatim>\<open>payment_intent.payment_failed\<close> with a valid signature
  is answered with 400 as well and no entry becomes \<open>failed\<close>: \<^verbatim>\<open>express.json\<close> has
  parsed the body before the route's \<^verbatim>\<open>express.raw\<close> can keep its bytes, and
  \<^verbatim>\<open>constructEvent\<close> throws on the parsed object.
\<close>

theorem webhook_payment_failed:
  "snd (webhook stripe env now d s) = s \<and> fst (webhook stripe env now d s) \<noteq> Received \<and>
   fst (webhook stripe env now d s) =
     (if \<not> cors env (origin d) \<or>
         (media_type d = ''application/json'' \<and>
          (50 * 1024 * 1024 < length (payload d) \<or> \<not> payload_is_json d)) \<or>
         (media_type d = ''application/x-www-form-urlencoded'' \<and>
          50 * 1024 * 1024 < length (payload d))
      then Json_error 500 ''Internal server error''
      else Json_error 400 ''Webhook error'')"
  by (simp add: webhook_refuses webhook_body_cases)

theorem webhook_payment_failed_witness:
  "webhooks_constructEvent (example_gateway ''succeeded'')
       (payload (example_delivery ''payment_intent.payment_failed'' (Some ''valid'')))
       (Some ''valid'') ''whsec_test'' =
     Inr \<lparr>event_type = ''payment_intent.payment_failed'', object_id = ''pi_1''\<rparr> \<and>
   map paymentIntentId (docs one_entry_store) = [''pi_1''] \<and>
   map paymentStatus (docs one_entry_store) = [Succeeded] \<and>
   webhook (example_gateway ''succeeded'') example_env 1500
       (example_delivery ''payment_intent.payment_failed'' (Some ''valid'')) one_entry_store =
     (Json_error 400 ''Webhook error'', one_entry_store) \<and>
   webhook (example_gateway ''succeeded'') example_env 1500
       (example_delivery ''payment_intent.payment_failed'' (Some ''forged'')) one_entry_store =
     (Json_error 400 ''Webhook error'', one_entry_store)"
proof -
  have v: "webhooks_constructEvent (example_gateway ''succeeded'')
       (payload (example_delivery ''payment_intent.payment_failed'' (Some ''valid'')))
       (Some ''valid'') ''whsec_test'' =
     Inr \<lparr>event_type = ''payment_intent.payment_failed'', object_id = ''pi_1''\<rparr>"
    using example_delivery_verifies [of "''payment_intent.payment_failed''" "''succeeded''"]
    by (simp add: example_delivery_def)
  have small: "length (payload (example_delivery ''payment_intent.payment_failed'' sig)) \<le>
      50 * 1024 * 1024" for sig
    by (simp add: example_delivery_def json_event_def quoted_def)
  have a: "webhook (example_gateway ''succeeded'') example_env 1500
       (example_delivery ''payment_intent.payment_failed'' sig) one_entry_store =
     (Json_error 400 ''Webhook error'', one_entry_store)" for sig
    using webhook_payment_failed [of "example_gateway ''succeeded''" example_env 1500
        "example_delivery ''payment_intent.payment_failed'' sig" one_entry_store]
      small [of sig]
    by (cases "webhook (example_gateway ''succeeded'') example_env 1500
        (example_delivery ''payment_intent.payment_failed'' sig) one_entry_store")
      (simp add: example_delivery_def cors_def falsy_def)
  show ?thesis
    using v a [of "Some ''valid''"] a [of "Some ''forged''"] by (simp add: one_entry_store_eq)
qed

text \<open>
  C10. In the first server a delivery with a valid signature whose event is of another type
  than \<^verbatim>\<open>payment_intent.payment_failed\<close> leaves the store as it is, as claimed, but it is
  not answered with \<^verbatim>\<open>{received: true}\<close>: the answer is 400 \<open>Webhook error\<close>, as for every
  JSON delivery.
\<close>

theorem webhook_other_event:
  assumes "webhooks_constructEvent stripe (payload d) (stripe_signature d) secret = Inr event"
    and "webhookSecret env = Some secret" and "stripeInitialized env"
    and "event_type event \<noteq> ''payment_intent.payment_failed''"
    and "cors env (origin d)"
    and "media_type d = ''application/json''" and "payload_is_json d"
    and "length (payload d) \<le> 50 * 1024 * 1024"
  shows "webhook stripe env now d s = (Json_error 400 ''Webhook error'', s) \<and>
     fst (webhook stripe env now d s) \<noteq> Received \<and>
     status_code (fst (webhook stripe env now d s)) = 400"
  using assms(5-8) by (simp add: webhook_refuses webhook_body_cases)

theorem webhook_other_event_witness:
  "webhooks_constructEvent (example_gateway ''succeeded'')
       (payload (example_delivery ''payment_intent.succeeded'' (Some ''valid'')))
       (stripe_signature (example_delivery ''payment_intent.succeeded'' (Some ''valid'')))
       ''whsec_test'' =
     Inr \<lparr>event_type = ''payment_intent.succeeded'', object_id = ''pi_1''\<rparr> \<and>
   webhook (example_gateway ''succeeded'') example_env 1500
       (example_delivery ''payment_intent.succeeded'' (Some ''valid'')) one_entry_store =
     (Json_error 400 ''Webhook error'', one_entry_store)"
proof -
  have v: "webhooks_constructEvent (example_gateway ''succeeded'')
       (payload (example_delivery ''payment_intent.succeeded'' (Some ''valid'')))
       (stripe_signature (example_delivery ''payment_intent.succeeded'' (Some ''valid'')))
       ''whsec_test'' =
     Inr \<lparr>event_type = ''payment_intent.succeeded'', object_id = ''pi_1''\<rparr>"
    using example_delivery_verifies [of "''payment_intent.succeeded''" "''succeeded''"] by simp
  have "webhook (example_gateway ''succeeded'') example_env 1500
       (example_delivery ''payment_intent.succeeded'' (Some ''valid'')) one_entry_store =
     (Json_error 400 ''Webhook error'', one_entry_store)"
    using webhook_other_event [OF v, of example_env 1500 one_entry_store]
    by (simp add: example_env_def example_delivery_def json_event_def quoted_def cors_def
        falsy_def)
  then show ?thesis using v by simp
qed

section \<open>Listing\<close>

lemma transform_entry_inv:
  assumes "fileData e = None \<or>
     (entryType e = ''pitch-deck'' \<and> fileUrl e = Some (''/api/file/'' @ paymentIntentId e))"
  shows "transform_entry e = e\<lparr>fileData := None\<rparr>"
  using assms by (auto simp: transform_entry_def truthy_def)

lemma transform_entry_fields:
  "fileData (transform_entry e) = None \<and> userId (transform_entry e) = userId e \<and>
   entry_id (transform_entry e) = entry_id e \<and> createdAt (transform_entry e) = createdAt e \<and>
   paymentIntentId (transform_entry e) = paymentIntentId e"
  by (simp add: transform_entry_def)

lemma transform_entry_url:
  "entryType e = ''pitch-deck'' \<Longrightarrow> truthy (fileData e) \<Longrightarrow>
   fileUrl (transform_entry e) = Some (''/api/file/'' @ paymentIntentId e)"
  by (simp add: transform_entry_def)

lemma find_sorted_mset:
  "mset (find_sorted uid ds) = filter_mset (\<lambda>e. userId e = uid) (mset ds)"
  by (simp add: find_sorted_def)

lemma find_sorted_descending:
  "sorted_wrt (\<lambda>a b. createdAt b \<le> createdAt a) (find_sorted uid ds)"
proof -
  have "sorted (map (\<lambda>e. - int (createdAt e)) (find_sorted uid ds))"
    unfolding find_sorted_def by (rule sorted_sort_key)
  then have "sorted_wrt (\<lambda>a b. - int (createdAt a) \<le> - int (createdAt b)) (find_sorted uid ds)"
    by (simp add: sorted_wrt_map)
  then show ?thesis
    by (rule sorted_wrt_mono_rel [rotated]) simp
qed

text \<open>
  C8. With the database connected and in a reachable store, the listing for a user returns
  exactly the documents of that owner, each with \<open>fileData\<close> removed and nothing else
  changed, the latest creation time first; and where a document holds inline file data, the
  returned entry carries the retrieval URL \<^verbatim>\<open>/api/file/<paymentIntentId>\<close>.
\<close>

theorem list_entries_newest_first:
  assumes "mongoConnected env" and "reachable s"
  shows "\<exists>es. list_entries env uid s = Entries es \<and>
     mset es = image_mset (\<lambda>e. e\<lparr>fileData := None\<rparr>)
       (filter_mset (\<lambda>e. userId e = uid) (mset (docs s))) \<and>
     sorted_wrt (\<lambda>a b. createdAt b \<le> createdAt a) es \<and>
     (\<forall>r \<in> set es. fileData r = None \<and> userId r = uid) \<and>
     (\<forall>e \<in> set (docs s). userId e = uid \<and> fileData e \<noteq> None \<longrightarrow>
        e\<lparr>fileData := None\<rparr> \<in> set es \<and>
        fileUrl (e\<lparr>fileData := None\<rparr>) = Some (''/api/file/'' @ paymentIntentId e))"
proof -
  let ?found = "find_sorted uid (docs s)"
  have inv: "\<forall>e \<in> set (docs s). fileData e = None \<or>
     (entryType e = ''pitch-deck'' \<and> fileUrl e = Some (''/api/file/'' @ paymentIntentId e))"
    using reachable_store_inv [OF assms(2)] by (simp add: store_inv_def list_all_iff)
  have found: "set ?found = {e \<in> set (docs s). userId e = uid}"
    by (auto simp: find_sorted_def)
  have "map transform_entry ?found = map (\<lambda>e. e\<lparr>fileData := None\<rparr>) ?found"
    using inv found transform_entry_inv by (intro map_cong) auto
  then have resp: "list_entries env uid s = Entries (map (\<lambda>e. e\<lparr>fileData := None\<rparr>) ?found)"
    using assms(1) by (simp add: list_entries_def checkMongoDBConnection_def)
  have m: "mset (map (\<lambda>e. e\<lparr>fileData := None\<rparr>) ?found) =
      image_mset (\<lambda>e. e\<lparr>fileData := None\<rparr>)
        (filter_mset (\<lambda>e. userId e = uid) (mset (docs s)))"
    by (simp add: find_sorted_mset)
  have srt: "sorted_wrt (\<lambda>a b. createdAt b \<le> createdAt a)
      (map (\<lambda>e. e\<lparr>fileData := None\<rparr>) ?found)"
    using find_sorted_descending [of uid "docs s"] by (simp add: sorted_wrt_map)
  have fields: "\<forall>r \<in> set (map (\<lambda>e. e\<lparr>fileData := None\<rparr>) ?found).
      fileData r = None \<and> userId r = uid"
    using found by auto
  have url: "\<forall>e \<in> set (docs s). userId e = uid \<and> fileData e \<noteq> None \<longrightarrow>
        e\<lparr>fileData := None\<rparr> \<in> set (map (\<lambda>e. e\<lparr>fileData := None\<rparr>) ?found) \<and>
        fileUrl (e\<lparr>fileData := None\<rparr>) = Some (''/api/file/'' @ paymentIntentId e)"
    using inv found by auto
  show ?thesis
    using resp m srt fields url by blast
qed

lemma reachable_deck_store: "reachable deck_store"
proof -
  have r: "reachable resubmitted_store"
    using reachable_step [OF reachable_notified_store step_notified_resubmitted] .
  have "reachable (snd (submit_entry (example_gateway ''succeeded'') example_env 2500
      (video_request ''user_2'' ''pi_2'') resubmitted_store))"
    using reachable_step [OF r step_submit] .
  then show ?thesis
    unfolding deck_store_def using reachable_step [OF _ step_submit] by blast
qed

lemma deck_store_eq:
  "deck_store =
     \<lparr>docs =
        [\<lparr>entry_id = 0, userId = ''user_1'', category = ''business'',
           entryType = ''video'', title = ''Pitch video'',
           description = None, textContent = None, fileData = None,
           fileName = None, fileType = None, fileSize = None,
           fileUrl = None, videoUrl = Some ''https://youtu.be/abc'',
           entryFee = 49, stripeFee = 2, totalAmount = 51,
           paymentIntentId = ''pi_1'', paymentStatus = Succeeded,
           submissionDate = 1000, status = Submitted, createdAt = 1000,
           updatedAt = 1000\<rparr>,
         \<lparr>entry_id = 1, userId = ''user_1'', category = ''business'',
           entryType = ''video'', title = ''Pitch video'',
           description = None, textContent = None, fileData = None,
           fileName = None, fileType = None, fileSize = None,
           fileUrl = None, videoUrl = Some ''https://youtu.be/abc'',
           entryFee = 49, stripeFee = 2, totalAmount = 51,
           paymentIntentId = ''pi_1'', paymentStatus = Succeeded,
           submissionDate = 2000, status = Submitted, createdAt = 2000,
           updatedAt = 2000\<rparr>,
         \<lparr>entry_id = 2, userId = ''user_2'', category = ''business'',
           entryType = ''video'', title = ''Pitch video'',
           description = None, textContent = None, fileData = None,
           fileName = None, fileType = None, fileSize = None,
           fileUrl = None, videoUrl = Some ''https://youtu.be/abc'',
           entryFee = 49, stripeFee = 2, totalAmount = 51,
           paymentIntentId = ''pi_2'', paymentStatus = Succeeded,
           submissionDate = 2500, status = Submitted, createdAt = 2500,
           updatedAt = 2500\<rparr>,
         \<lparr>entry_id = 3, userId = ''user_1'', category = ''business'',
           entryType = ''pitch-deck'', title = ''Pitch deck'',
           description = None, textContent = None,
           fileData = Some ''JVBERi0xLjQ='', fileName = Some ''deck.pdf'',
           fileType = Some ''application/pdf'', fileSize = Some 2048,
           fileUrl = Some ''/api/file/pi_1'', videoUrl = None,
           entryFee = 49, stripeFee = 2, totalAmount = 51,
           paymentIntentId = ''pi_1'', paymentStatus = Succeeded,
           submissionDate = 3000, status = Submitted, createdAt = 3000,
           updatedAt = 3000\<rparr>],
      nextId = 4\<rparr>"
  by (simp add: deck_store_def resubmitted_store_eq handler_defs example_defs pdf_file_def
      parse_defs schema_defs fileFilter_def allowed_mime_types_def maxSize_def Let_def)

theorem list_entries_newest_first_witness:
  "\<exists>es. list_entries example_env ''user_1'' deck_store = Entries es \<and>
     map (\<lambda>e. (entry_id e, userId e, createdAt e, fileData e, fileUrl e)) es =
       [(3, ''user_1'', 3000, None, Some ''/api/file/pi_1''),
        (1, ''user_1'', 2000, None, None), (0, ''user_1'', 1000, None, None)] \<and>
     sorted_wrt (\<lambda>a b. createdAt b \<le> createdAt a) es"
proof -
  let ?listed = "map transform_entry (find_sorted ''user_1'' (docs deck_store))"
  have m: "mongoConnected example_env"
    by (simp add: example_env_def)
  have v: "list_entries example_env ''user_1'' deck_store = Entries ?listed"
    using m by (simp add: list_entries_def checkMongoDBConnection_def)
  have srt: "sorted_wrt (\<lambda>a b. createdAt b \<le> createdAt a) ?listed"
    using list_entries_newest_first [OF m reachable_deck_store, of "''user_1''"]
    unfolding v by (elim exE conjE) simp
  have val: "map (\<lambda>e. (entry_id e, userId e, createdAt e, fileData e, fileUrl e)) ?listed =
      [(3, ''user_1'', 3000, None, Some ''/api/file/pi_1''),
       (1, ''user_1'', 2000, None, None), (0, ''user_1'', 1000, None, None)]"
    by (simp add: deck_store_eq find_sorted_def transform_entry_def truthy_def)
  show ?thesis
    using v val srt by (intro exI conjI)
qed

section \<open>The test entry of \<^verbatim>\<open>server.js\<close>\<close>

lemma test_entry_text_words: "wordCount (Some test_entry_text) = 11"
  by (simp add: wordCount_spec spec_word_count_def test_entry_text_def is_space_def
      numeral_2_eq_2)

text \<open>
  The text that \<^verbatim>\<open>server.js\<close> gives its test entry has eleven words, so the validation of
  \<^verbatim>\<open>save\<close> refuses it: the route answers 500 and writes nothing.
\<close>

lemma create_test_entry_server_js:
  assumes "mongoConnected env"
  shows "create_test_entry test_entry_text env now uid s =
     (Json_error 500 ''Failed to create test entry'', s)"
proof -
  have "\<not> textContent_validator ''text'' (Some test_entry_text)"
    by (simp add: textContent_validator_def test_entry_text_words)
  then show ?thesis
    using assms
    by (simp add: create_test_entry_def checkMongoDBConnection_def save_def schema_valid_def
        doValidate_def blank_entry_def Let_def)
qed

lemma test_entries_text_words: "wordCount (Some test_entries_text) = 19"
  by (simp add: wordCount_spec spec_word_count_def test_entries_text_def is_space_def
      numeral_3_eq_3)

text \<open>
  Likewise for \<^verbatim>\<open>GET /api/create-test-entries/:userId\<close>: the first of the three
  documents has nineteen words, \<^verbatim>\<open>insertMany\<close> refuses the list, and nothing is
  written.
\<close>

lemma create_test_entries_server_js:
  assumes "mongoConnected env"
  shows "create_test_entries test_entries_text env now uid s =
     (Json_error 500 ''Failed to create test entries'', s)"
proof -
  have "\<not> textContent_validator ''text'' (Some test_entries_text)"
    by (simp add: textContent_validator_def test_entries_text_words)
  then have "\<not> list_all schema_valid
      (number_from now (nextId s) (testEntries test_entries_text now uid))"
    by (simp add: number_from_def testEntries_def schema_valid_def doValidate_def
        blank_entry_def)
  then show ?thesis
    using assms
    by (simp add: create_test_entries_def checkMongoDBConnection_def insertMany_def Let_def)
qed

section \<open>The second server\<close>

text \<open>
  The listing of the second server returns exactly the documents of the owner, unchanged,
  the latest first; its documents have no inline file data, and then neither has the
  response.
\<close>

lemma list_entries_v2_newest_first:
  assumes "mongoConnected env"
  shows "\<exists>es. list_entries_v2 env uid s = Entries es \<and>
     mset es = filter_mset (\<lambda>e. userId e = uid) (mset (docs s)) \<and>
     sorted_wrt (\<lambda>a b. createdAt b \<le> createdAt a) es \<and>
     ((\<forall>e \<in> set (docs s). fileData e = None) \<longrightarrow> (\<forall>r \<in> set es. fileData r = None))"
proof -
  have "list_entries_v2 env uid s = Entries (find_sorted uid (docs s))"
    using assms by (simp add: list_entries_v2_def connect_middleware_def)
  moreover have "set (find_sorted uid (docs s)) \<subseteq> set (docs s)"
    by (auto simp: find_sorted_def)
  ultimately show ?thesis
    using find_sorted_mset [of uid "docs s"] find_sorted_descending [of uid "docs s"]
    by auto
qed

text \<open>
  The second server tests the identifier of a delete request before it looks the document
  up: one that \<^verbatim>\<open>ObjectId.isValid\<close> refuses is answered with 400, and nothing is removed.
\<close>

lemma delete_entry_v2_invalid_id:
  assumes "mongoConnected env" and "\<not> ObjectId_isValid db param"
  shows "delete_entry_v2 db env param uid s = (Json_error 400 ''Invalid entry ID format'', s)"
  using assms by (simp add: delete_entry_v2_def connect_middleware_def)

text \<open>
  The webhook of the second server, once it is configured and connected, for a JSON
  delivery within the limit of \<^verbatim>\<open>express.raw\<close>: a signature that does not verify is
  answered with 400 and changes nothing; a verified \<^verbatim>\<open>payment_intent.payment_failed\<close>
  event marks the first document of that payment intent as failed and changes nothing
  else; any other verified event changes nothing.
\<close>

lemma webhook_v2_outcomes:
  assumes "mongoConnected env" and "stripeInitialized env" and "truthy (webhookSecret env)"
    and "media_type d = ''application/json''" and "length (payload d) \<le> 100 * 1024"
  shows "(\<forall>err. webhooks_constructEvent stripe (payload d) (stripe_signature d)
            (the (webhookSecret env)) = Inl err \<longrightarrow>
      webhook_v2 stripe env now d s = (Text_error 400 ''Webhook Error'', s)) \<and>
   (\<forall>event pre e post.
      webhooks_constructEvent stripe (payload d) (stripe_signature d)
        (the (webhookSecret env)) = Inr event \<and>
      event_type event = ''payment_intent.payment_failed'' \<and>
      docs s = pre @ e # post \<and> (\<forall>x \<in> set pre. paymentIntentId x \<noteq> object_id event) \<and>
      paymentIntentId e = object_id event \<longrightarrow>
      webhook_v2 stripe env now d s =
        (Received, s\<lparr>docs := pre @ e\<lparr>paymentStatus := Failed, updatedAt := now\<rparr> # post\<rparr>)) \<and>
   (\<forall>event.
      webhooks_constructEvent stripe (payload d) (stripe_signature d)
        (the (webhookSecret env)) = Inr event \<and>
      event_type event \<noteq> ''payment_intent.payment_failed'' \<longrightarrow>
      webhook_v2 stripe env now d s = (Received, s))"
proof -
  have body: "webhook_body_v2 d = Inr (Buffer_body (payload d))"
    using assms(4,5)
    by (simp add: webhook_body_v2_def express_raw_def express_json_def body_parser_def)
  show ?thesis
    using assms(1-3) findOneAndUpdate_failed_first
    by (simp add: webhook_v2_def body connect_middleware_def constructEvent_def falsy_truthy)
qed

end
